theory Spec2Isabelle
  imports Main
begin


section \<open>Characters and strings of the source language\<close>

text \<open>
  The compiler is written in JavaScript. A JavaScript string is modelled as a
  \<^typ>\<open>string\<close>, one \<^typ>\<open>char\<close> per code unit, for code units in the range
  0..255. The character classes below are the ones of the regular expressions of
  the source, restricted to that range.
\<close>

abbreviation bslash :: char where "bslash \<equiv> CHR 0x5C"
abbreviation dquote :: char where "dquote \<equiv> CHR 0x22"
abbreviation squote :: char where "squote \<equiv> CHR 0x27"
abbreviation newline :: char where "newline \<equiv> CHR 0x0A"
abbreviation tabchar :: char where "tabchar \<equiv> CHR 0x09"

text \<open>\<^verbatim>\<open>/\s/\<close>: tab, line feed, vertical tab, form feed, carriage return, space and
  the no-break space.\<close>

definition isSpace :: "char \<Rightarrow> bool" where
  "isSpace c = (c \<in> set [CHR 0x09, CHR 0x0A, CHR 0x0B, CHR 0x0C, CHR 0x0D, CHR 0x20, CHR 0xA0])"

text \<open>\<^verbatim>\<open>/\d/\<close>\<close>

definition isDigit :: "char \<Rightarrow> bool" where
  "isDigit c = (c \<in> set ''0123456789'')"

definition isLower :: "char \<Rightarrow> bool" where
  "isLower c = (c \<in> set ''abcdefghijklmnopqrstuvwxyz'')"

definition isUpper :: "char \<Rightarrow> bool" where
  "isUpper c = (c \<in> set ''ABCDEFGHIJKLMNOPQRSTUVWXYZ'')"

text \<open>\<^verbatim>\<open>/[a-zA-Z_]/\<close>\<close>

definition isIdentStart :: "char \<Rightarrow> bool" where
  "isIdentStart c = (isLower c \<or> isUpper c \<or> c = CHR ''_'')"

text \<open>\<^verbatim>\<open>/[a-zA-Z0-9_]/\<close>\<close>

definition isIdentChar :: "char \<Rightarrow> bool" where
  "isIdentChar c = (isLower c \<or> isUpper c \<or> isDigit c \<or> c = CHR ''_'')"

text \<open>\<^verbatim>\<open>/[\d.]/\<close>\<close>

definition isNumChar :: "char \<Rightarrow> bool" where
  "isNumChar c = (isDigit c \<or> c = CHR ''.'')"

text \<open>\<^verbatim>\<open>/[a-zA-Z%]/\<close>\<close>

definition isUnitChar :: "char \<Rightarrow> bool" where
  "isUnitChar c = (isLower c \<or> isUpper c \<or> c = CHR ''%'')"

text \<open>\<^verbatim>\<open>String.prototype.toLowerCase\<close> on code units below 256: the letters A to Z
  and the accented capitals 0xC0 to 0xDE (the multiplication sign 0xD7 apart) move
  up by 32; nothing else changes.\<close>

definition lowerChar :: "char \<Rightarrow> char" where
  "lowerChar c =
     (let n = of_char c :: nat
      in if (65 \<le> n \<and> n \<le> 90) \<or> (192 \<le> n \<and> n \<le> 222 \<and> n \<noteq> 215)
         then char_of (n + 32) else c)"

definition toLowerCase :: "string \<Rightarrow> string" where
  "toLowerCase s = map lowerChar s"

text \<open>\<^verbatim>\<open>s.includes(sub)\<close> and \<^verbatim>\<open>s.startsWith(sub)\<close>\<close>

definition startsWith :: "string \<Rightarrow> string \<Rightarrow> bool" where
  "startsWith s sub = (take (length sub) s = sub)"

fun str_includes :: "string \<Rightarrow> string \<Rightarrow> bool" where
  "str_includes [] sub = (sub = [])"
| "str_includes (c # cs) sub = (startsWith (c # cs) sub \<or> str_includes cs sub)"

section \<open>PSLTokenizer\<close>

datatype tokType = OPERATOR | HASH | AT | IDENTIFIER | NUMBER | STRING | SYMBOL | EOF

record token =
  tok_type :: tokType
  tok_value :: string

definition mkToken :: "tokType \<Rightarrow> string \<Rightarrow> token" where
  "mkToken ty v = \<lparr>tok_type = ty, tok_value = v\<rparr>"

record tokenizer =
  input :: string
  pos :: nat
  tokens :: "token list"

text \<open>\<^verbatim>\<open>constructor(input)\<close>\<close>

definition PSLTokenizer :: "string \<Rightarrow> tokenizer" where
  "PSLTokenizer inp = \<lparr>input = inp, pos = 0, tokens = []\<rparr>"

text \<open>\<^verbatim>\<open>this.input[i]\<close>: \<^verbatim>\<open>undefined\<close> out of range.\<close>

definition charAt :: "string \<Rightarrow> nat \<Rightarrow> char option" where
  "charAt s i = (if i < length s then Some (s ! i) else None)"

text \<open>\<^verbatim>\<open>match(str)\<close>: \<^verbatim>\<open>this.input.substr(this.pos, str.length) === str\<close>\<close>

definition match :: "tokenizer \<Rightarrow> string \<Rightarrow> bool" where
  "match t str = (take (length str) (drop (pos t) (input t)) = str)"

function skipWhitespace_loop :: "string \<Rightarrow> nat \<Rightarrow> nat" where
  "skipWhitespace_loop inp p =
     (if p < length inp \<and> isSpace (inp ! p) then skipWhitespace_loop inp (Suc p) else p)"
  by pat_completeness auto
termination
  by (relation "measure (\<lambda>(inp, p). length inp - p)") auto

declare skipWhitespace_loop.simps [simp del]

definition skipWhitespace :: "tokenizer \<Rightarrow> tokenizer" where
  "skipWhitespace t = t\<lparr>pos := skipWhitespace_loop (input t) (pos t)\<rparr>"

function skipLineComment_loop :: "string \<Rightarrow> nat \<Rightarrow> nat" where
  "skipLineComment_loop inp p =
     (if p < length inp \<and> inp ! p \<noteq> newline then skipLineComment_loop inp (Suc p) else p)"
  by pat_completeness auto
termination
  by (relation "measure (\<lambda>(inp, p). length inp - p)") auto

declare skipLineComment_loop.simps [simp del]

definition skipLineComment :: "tokenizer \<Rightarrow> tokenizer" where
  "skipLineComment t = t\<lparr>pos := skipLineComment_loop (input t) (pos t)\<rparr>"

text \<open>The loop of \<^verbatim>\<open>skipBlockComment\<close>. Its guard \<^verbatim>\<open>this.pos < this.input.length - 1\<close>
  is written \<open>Suc p < length inp\<close>, which is the same comparison on integers.\<close>

function skipBlockComment_loop :: "string \<Rightarrow> nat \<Rightarrow> nat" where
  "skipBlockComment_loop inp p =
     (if Suc p < length inp
      then (if inp ! p = CHR ''*'' \<and> inp ! Suc p = CHR ''/'' then p + 2
            else skipBlockComment_loop inp (Suc p))
      else p)"
  by pat_completeness auto
termination
  by (relation "measure (\<lambda>(inp, p). length inp - p)") auto

declare skipBlockComment_loop.simps [simp del]

definition skipBlockComment :: "tokenizer \<Rightarrow> tokenizer" where
  "skipBlockComment t = t\<lparr>pos := skipBlockComment_loop (input t) (pos t + 2)\<rparr>"

text \<open>The loops of \<^verbatim>\<open>readIdentifier\<close> and \<^verbatim>\<open>readNumber\<close> collect the characters of
  a class from the cursor on and leave the cursor behind them.\<close>

function readWhile :: "(char \<Rightarrow> bool) \<Rightarrow> string \<Rightarrow> nat \<Rightarrow> string \<Rightarrow> string \<times> nat" where
  "readWhile P inp p v =
     (if p < length inp \<and> P (inp ! p) then readWhile P inp (Suc p) (v @ [inp ! p]) else (v, p))"
  by pat_completeness auto
termination
  by (relation "measure (\<lambda>(P, inp, p, v). length inp - p)") auto

declare readWhile.simps [simp del]

definition pushToken :: "tokenizer \<Rightarrow> tokType \<Rightarrow> string \<Rightarrow> tokenizer" where
  "pushToken t ty v = t\<lparr>tokens := tokens t @ [mkToken ty v]\<rparr>"

definition readIdentifier :: "tokenizer \<Rightarrow> tokenizer" where
  "readIdentifier t =
     (case readWhile isIdentChar (input t) (pos t) [] of
        (v, p) \<Rightarrow> pushToken (t\<lparr>pos := p\<rparr>) IDENTIFIER v)"

definition validUnits :: "string list" where
  "validUnits = [''px'', ''vw'', ''vh'', ''%'', ''em'', ''rem'', ''vmin'', ''vmax'',
                 ''cm'', ''mm'', ''in'', ''pt'', ''pc'', ''s'', ''ms'']"

definition readNumber :: "tokenizer \<Rightarrow> tokenizer" where
  "readNumber t =
     (case readWhile isNumChar (input t) (pos t) [] of
        (v, unitStart) \<Rightarrow>
          (case readWhile isUnitChar (input t) unitStart [] of
             (unit, p) \<Rightarrow>
               if toLowerCase unit \<in> set validUnits \<or> unit = ''%''
               then pushToken (t\<lparr>pos := p\<rparr>) NUMBER (v @ unit)
               else pushToken (t\<lparr>pos := unitStart\<rparr>) NUMBER v))"

text \<open>The loop of \<^verbatim>\<open>readString\<close>. After a backslash the next code unit is taken
  whatever it is; at the end of the input it is \<^verbatim>\<open>undefined\<close>, which the
  concatenation turns into the text \<^verbatim>\<open>undefined\<close>.\<close>

function readString_loop :: "char \<Rightarrow> string \<Rightarrow> nat \<Rightarrow> string \<Rightarrow> string \<times> nat" where
  "readString_loop quote inp p v =
     (if p < length inp \<and> inp ! p \<noteq> quote
      then (if inp ! p = bslash
            then readString_loop quote inp (p + 2)
                   (v @ (case charAt inp (Suc p) of
                           None \<Rightarrow> ''undefined''
                         | Some escaped \<Rightarrow>
                             if escaped = CHR ''n'' then [newline]
                             else if escaped = CHR ''t'' then [tabchar]
                             else [escaped]))
            else readString_loop quote inp (Suc p) (v @ [inp ! p]))
      else (v, p))"
  by pat_completeness auto
termination
  by (relation "measure (\<lambda>(q, inp, p, v). length inp - p)") auto

declare readString_loop.simps [simp del]

definition readString :: "tokenizer \<Rightarrow> tokenizer" where
  "readString t =
     (case readString_loop (input t ! pos t) (input t) (Suc (pos t)) [] of
        (v, p) \<Rightarrow> pushToken (t\<lparr>pos := Suc p\<rparr>) STRING v)"

definition symbolChars :: string where
  "symbolChars = ''{}()[];:,=.<>+-*/%?!''"

text \<open>One turn of the loop of \<^verbatim>\<open>tokenize\<close>, from the first comment test on; it is
  entered with the cursor inside the input.\<close>

definition tokenize_step :: "tokenizer \<Rightarrow> tokenizer" where
  "tokenize_step t =
     (if match t ''//'' then skipLineComment t
      else if match t ''/*'' then skipBlockComment t
      else if match t ''=='' then (pushToken t OPERATOR ''=='')\<lparr>pos := pos t + 2\<rparr>
      else if match t ''!='' then (pushToken t OPERATOR ''!='')\<lparr>pos := pos t + 2\<rparr>
      else if match t ''>='' then (pushToken t OPERATOR ''>='')\<lparr>pos := pos t + 2\<rparr>
      else if match t ''<='' then (pushToken t OPERATOR ''<='')\<lparr>pos := pos t + 2\<rparr>
      else
        (let char = input t ! pos t
         in if char = CHR ''#'' then (pushToken t HASH ''#'')\<lparr>pos := Suc (pos t)\<rparr>
            else if char = CHR ''@'' then (pushToken t AT ''@'')\<lparr>pos := Suc (pos t)\<rparr>
            else if isIdentStart char then readIdentifier t
            else if isDigit char then readNumber t
            else if char = dquote \<or> char = squote then readString t
            else if char \<in> set symbolChars then (pushToken t SYMBOL [char])\<lparr>pos := Suc (pos t)\<rparr>
            else t\<lparr>pos := Suc (pos t)\<rparr>))"


subsection \<open>The cursor only moves forward\<close>

lemma skipWhitespace_loop_ge: "p \<le> skipWhitespace_loop inp p"
proof (induction inp p rule: skipWhitespace_loop.induct)
  case (1 inp p)
  show ?case
  proof (cases "p < length inp \<and> isSpace (inp ! p)")
    case True
    with "1" have "Suc p \<le> skipWhitespace_loop inp (Suc p)" by simp
    with True show ?thesis by (subst skipWhitespace_loop.simps) simp
  next
    case False
    then show ?thesis by (subst skipWhitespace_loop.simps) auto
  qed
qed

lemma skipLineComment_loop_gt:
  "p < length inp \<Longrightarrow> inp ! p \<noteq> newline \<Longrightarrow> p < skipLineComment_loop inp p"
proof -
  have ge: "q \<le> skipLineComment_loop inp q" for q
  proof (induction inp q rule: skipLineComment_loop.induct)
    case (1 inp q)
    show ?case
    proof (cases "q < length inp \<and> inp ! q \<noteq> newline")
      case True
      with "1" have "Suc q \<le> skipLineComment_loop inp (Suc q)" by simp
      with True show ?thesis by (subst skipLineComment_loop.simps) simp
    next
      case False
      then show ?thesis by (subst skipLineComment_loop.simps) auto
    qed
  qed
  assume "p < length inp" "inp ! p \<noteq> newline"
  then have "skipLineComment_loop inp p = skipLineComment_loop inp (Suc p)"
    by (subst skipLineComment_loop.simps) simp
  with ge [of "Suc p"] show ?thesis by simp
qed

lemma skipBlockComment_loop_ge: "p \<le> skipBlockComment_loop inp p"
proof (induction inp p rule: skipBlockComment_loop.induct)
  case (1 inp p)
  show ?case
  proof (cases "Suc p < length inp \<and> \<not> (inp ! p = CHR ''*'' \<and> inp ! Suc p = CHR ''/'')")
    case True
    with "1" have "Suc p \<le> skipBlockComment_loop inp (Suc p)" by simp
    with True show ?thesis by (subst skipBlockComment_loop.simps) auto
  next
    case False
    then show ?thesis by (subst skipBlockComment_loop.simps) auto
  qed
qed

lemma readWhile_ge: "p \<le> snd (readWhile P inp p v)"
proof (induction P inp p v rule: readWhile.induct)
  case (1 P inp p v)
  show ?case
  proof (cases "p < length inp \<and> P (inp ! p)")
    case True
    with "1" have "Suc p \<le> snd (readWhile P inp (Suc p) (v @ [inp ! p]))" by simp
    with True show ?thesis by (subst readWhile.simps) simp
  next
    case False
    then show ?thesis by (subst readWhile.simps) auto
  qed
qed

lemma readWhile_gt:
  assumes "p < length inp" "P (inp ! p)"
  shows "p < snd (readWhile P inp p v)"
proof -
  from assms have "readWhile P inp p v = readWhile P inp (Suc p) (v @ [inp ! p])"
    by (subst readWhile.simps) simp
  with readWhile_ge [of "Suc p" P inp "v @ [inp ! p]"] show ?thesis by simp
qed

lemma readString_loop_ge: "p \<le> snd (readString_loop q inp p v)"
proof (induction q inp p v rule: readString_loop.induct)
  case (1 q inp p v)
  show ?case
  proof (cases "p < length inp \<and> inp ! p \<noteq> q")
    case False
    then show ?thesis by (subst readString_loop.simps) auto
  next
    case True
    show ?thesis
    proof (cases "inp ! p = bslash")
      case esc: True
      with True "1" have "p + 2 \<le> snd (readString_loop q inp (p + 2)
          (v @ (case charAt inp (Suc p) of None \<Rightarrow> ''undefined''
                | Some escaped \<Rightarrow> if escaped = CHR ''n'' then [newline]
                    else if escaped = CHR ''t'' then [tabchar] else [escaped])))"
        by simp
      with True esc show ?thesis by (subst readString_loop.simps) simp
    next
      case noesc: False
      with True "1" have "Suc p \<le> snd (readString_loop q inp (Suc p) (v @ [inp ! p]))" by simp
      with True noesc show ?thesis by (subst readString_loop.simps) simp
    qed
  qed
qed

lemma input_skipWhitespace [simp]: "input (skipWhitespace t) = input t"
  by (simp add: skipWhitespace_def)

lemma tokens_skipWhitespace [simp]: "tokens (skipWhitespace t) = tokens t"
  by (simp add: skipWhitespace_def)

lemma pos_skipWhitespace_ge: "pos t \<le> pos (skipWhitespace t)"
  by (simp add: skipWhitespace_def skipWhitespace_loop_ge)

lemma match_two:
  "match t [a, b] \<Longrightarrow> Suc (pos t) < length (input t) \<and> input t ! pos t = a \<and> input t ! Suc (pos t) = b"
proof -
  assume m: "match t [a, b]"
  then have tk: "take 2 (drop (pos t) (input t)) = [a, b]" by (simp add: match_def numeral_2_eq_2)
  then have "length (take 2 (drop (pos t) (input t))) = 2" by simp
  then have len: "Suc (pos t) < length (input t)" by simp
  from tk have "take 2 (drop (pos t) (input t)) ! 0 = a" "take 2 (drop (pos t) (input t)) ! 1 = b"
    by simp_all
  with len show ?thesis by simp
qed

lemma input_pushToken [simp]: "input (pushToken t ty v) = input t"
  by (simp add: pushToken_def)

lemma pos_pushToken [simp]: "pos (pushToken t ty v) = pos t"
  by (simp add: pushToken_def)

lemma tokens_pushToken [simp]: "tokens (pushToken t ty v) = tokens t @ [mkToken ty v]"
  by (simp add: pushToken_def)

lemma input_skipLineComment [simp]: "input (skipLineComment t) = input t"
  by (simp add: skipLineComment_def)

lemma input_skipBlockComment [simp]: "input (skipBlockComment t) = input t"
  by (simp add: skipBlockComment_def)

lemma input_readIdentifier [simp]: "input (readIdentifier t) = input t"
  by (simp add: readIdentifier_def split: prod.splits)

lemma input_readNumber [simp]: "input (readNumber t) = input t"
  by (simp add: readNumber_def split: prod.splits)

lemma input_readString [simp]: "input (readString t) = input t"
  by (simp add: readString_def split: prod.splits)

lemma input_tokenize_step [simp]: "input (tokenize_step t) = input t"
  unfolding tokenize_step_def Let_def by simp

lemma pos_skipLineComment:
  assumes "match t ''//''"
  shows "pos t < pos (skipLineComment t)"
proof -
  from match_two [OF assms] have "pos t < length (input t)" "input t ! pos t \<noteq> newline"
    by simp_all
  then show ?thesis by (simp add: skipLineComment_def skipLineComment_loop_gt)
qed

lemma pos_skipBlockComment: "pos t < pos (skipBlockComment t)"
  using skipBlockComment_loop_ge [of "pos t + 2" "input t"] by (simp add: skipBlockComment_def)

lemma pos_readIdentifier:
  assumes "pos t < length (input t)" "isIdentStart (input t ! pos t)"
  shows "pos t < pos (readIdentifier t)"
proof -
  obtain v p where r: "readWhile isIdentChar (input t) (pos t) [] = (v, p)" by force
  from assms have "isIdentChar (input t ! pos t)"
    by (auto simp: isIdentStart_def isIdentChar_def)
  with assms have "pos t < snd (readWhile isIdentChar (input t) (pos t) [])"
    by (intro readWhile_gt)
  with r show ?thesis by (simp add: readIdentifier_def)
qed

lemma pos_readNumber:
  assumes "pos t < length (input t)" "isDigit (input t ! pos t)"
  shows "pos t < pos (readNumber t)"
proof -
  obtain v us where r1: "readWhile isNumChar (input t) (pos t) [] = (v, us)" by force
  obtain u p where r2: "readWhile isUnitChar (input t) us [] = (u, p)" by force
  from assms have "pos t < snd (readWhile isNumChar (input t) (pos t) [])"
    by (intro readWhile_gt) (simp_all add: isNumChar_def)
  with r1 have a: "pos t < us" by simp
  from readWhile_ge [of us isUnitChar "input t" "[]"] r2 have b: "us \<le> p" by simp
  from a b r1 r2 show ?thesis by (simp add: readNumber_def)
qed

lemma pos_readString: "pos t < pos (readString t)"
proof -
  obtain v p where r: "readString_loop (input t ! pos t) (input t) (Suc (pos t)) [] = (v, p)"
    by force
  from readString_loop_ge [of "Suc (pos t)" "input t ! pos t" "input t" "[]"] r
  have "Suc (pos t) \<le> p" by simp
  with r show ?thesis by (simp add: readString_def)
qed

lemma pos_tokenize_step:
  assumes "pos t < length (input t)"
  shows "pos t < pos (tokenize_step t)"
  unfolding tokenize_step_def Let_def
  using assms
  by (simp add: pos_skipLineComment pos_skipBlockComment pos_readIdentifier pos_readNumber
      pos_readString)

subsection \<open>\<^verbatim>\<open>tokenize\<close>\<close>

function tokenize_loop :: "tokenizer \<Rightarrow> tokenizer" where
  "tokenize_loop t =
     (if pos t < length (input t)
      then (let t1 = skipWhitespace t
            in if pos t1 \<ge> length (input t1) then t1
               else tokenize_loop (tokenize_step t1))
      else t)"
  by pat_completeness auto
termination
proof (relation "measure (\<lambda>t. length (input t) - pos t)")
  show "wf (measure (\<lambda>t. length (input t) - pos t))" by simp
next
  fix t t1 :: tokenizer
  assume a: "pos t < length (input t)" "t1 = skipWhitespace t" "\<not> length (input t1) \<le> pos t1"
  then have "pos t1 < pos (tokenize_step t1)" by (intro pos_tokenize_step) simp
  moreover from a have "pos t \<le> pos t1" by (simp add: pos_skipWhitespace_ge)
  ultimately show "(tokenize_step t1, t) \<in> measure (\<lambda>t. length (input t) - pos t)"
    using a by simp
qed

definition tokenize :: "string \<Rightarrow> token list" where
  "tokenize inp = tokens (pushToken (tokenize_loop (PSLTokenizer inp)) EOF [])"

declare tokenize_loop.simps [simp del]

subsection \<open>Predicates used to state the properties of the tokenizer\<close>

text \<open>A character that no branch of \<^verbatim>\<open>tokenize\<close> recognises: not white space, not
  \<^verbatim>\<open>#\<close> or \<^verbatim>\<open>@\<close>, not the start of an identifier, a number or a string, and not a
  symbol.\<close>

definition unrecognized :: "char \<Rightarrow> bool" where
  "unrecognized c = (\<not> isSpace c \<and> c \<noteq> CHR ''#'' \<and> c \<noteq> CHR ''@'' \<and> \<not> isIdentStart c
     \<and> \<not> isDigit c \<and> c \<noteq> dquote \<and> c \<noteq> squote \<and> c \<notin> set symbolChars)"

text \<open>The string starts with a character of the class.\<close>

definition startsWithClass :: "(char \<Rightarrow> bool) \<Rightarrow> string \<Rightarrow> bool" where
  "startsWithClass P s = (case s of [] \<Rightarrow> False | c # _ \<Rightarrow> P c)"

section \<open>PSLParser: expressions\<close>

text \<open>
  The expression nodes, tagged in the source by their \<^verbatim>\<open>type\<close> field: \<^verbatim>\<open>string\<close>,
  \<^verbatim>\<open>number\<close> (the token's text, unit suffix included), \<^verbatim>\<open>boolean\<close>, \<^verbatim>\<open>variable\<close>,
  \<^verbatim>\<open>dotNotation\<close> (object, property), \<^verbatim>\<open>array\<close>, \<^verbatim>\<open>object\<close> (its own properties in
  enumeration order), \<^verbatim>\<open>binaryExpression\<close> (operator, left, right), \<^verbatim>\<open>ternary\<close>
  (condition, trueExpr, falseExpr) and \<^verbatim>\<open>null\<close>.
\<close>

datatype expr =
    StringE string
  | NumberE string
  | BooleanE bool
  | VariableE string
  | DotNotation string string
  | ArrayE "expr list"
  | ObjectE "(string \<times> expr) list"
  | BinaryExpression string expr expr
  | Ternary expr expr expr
  | NullE

text \<open>\<^verbatim>\<open>throw new Error(message)\<close>\<close>

datatype error = Error string

record parser =
  ptokens :: "token list"
  ppos :: nat

text \<open>\<^verbatim>\<open>constructor(tokens)\<close>\<close>

definition PSLParser :: "token list \<Rightarrow> parser" where
  "PSLParser toks = \<lparr>ptokens = toks, ppos = 0\<rparr>"

text \<open>\<^verbatim>\<open>peekAhead(n)\<close>: \<^verbatim>\<open>this.tokens[this.pos + n] || { type: 'EOF', value: '' }\<close>\<close>

definition peekAhead :: "parser \<Rightarrow> nat \<Rightarrow> token" where
  "peekAhead ps n =
     (if ppos ps + n < length (ptokens ps) then ptokens ps ! (ppos ps + n) else mkToken EOF '''')"

definition peek :: "parser \<Rightarrow> token" where
  "peek ps = (if ppos ps < length (ptokens ps) then ptokens ps ! ppos ps else mkToken EOF '''')"

definition isAtEnd :: "parser \<Rightarrow> bool" where
  "isAtEnd ps = (tok_type (peek ps) = EOF)"

text \<open>\<^verbatim>\<open>this.pos++\<close>\<close>

definition advance :: "parser \<Rightarrow> parser" where
  "advance ps = ps\<lparr>ppos := Suc (ppos ps)\<rparr>"

text \<open>The text of a token type, as the error message prints it.\<close>

fun typeName :: "tokType \<Rightarrow> string" where
  "typeName OPERATOR = ''OPERATOR''"
| "typeName HASH = ''HASH''"
| "typeName AT = ''AT''"
| "typeName IDENTIFIER = ''IDENTIFIER''"
| "typeName NUMBER = ''NUMBER''"
| "typeName STRING = ''STRING''"
| "typeName SYMBOL = ''SYMBOL''"
| "typeName EOF = ''EOF''"

text \<open>The decimal text of a natural number, as a template literal prints it.\<close>

definition digitChar :: "nat \<Rightarrow> char" where
  "digitChar d = ''0123456789'' ! d"

fun showNat :: "nat \<Rightarrow> string" where
  "showNat n = (if n < 10 then [digitChar n] else showNat (n div 10) @ [digitChar (n mod 10)])"

declare showNat.simps [simp del]

text \<open>The optional \<^verbatim>\<open>value\<close> argument of \<^verbatim>\<open>expect\<close> is \<^verbatim>\<open>null\<close> (\<open>None\<close>) or a string;
  the source tests it for truthiness, and the empty string is falsy.\<close>

fun truthyArg :: "string option \<Rightarrow> bool" where
  "truthyArg None = False"
| "truthyArg (Some s) = (s \<noteq> [])"

definition expectMessage :: "tokType \<Rightarrow> string option \<Rightarrow> token \<Rightarrow> nat \<Rightarrow> string" where
  "expectMessage ty v token p =
     ''Expected '' @ typeName ty @ (if truthyArg v then '' ('' @ the v @ '')'' else '''')
       @ '', got '' @ typeName (tok_type token) @ '' ('' @ tok_value token @ '') at position ''
       @ showNat p"

definition expect :: "parser \<Rightarrow> tokType \<Rightarrow> string option \<Rightarrow> error + (token \<times> parser)" where
  "expect ps ty v =
     (let token = peek ps
      in if tok_type token \<noteq> ty \<or> (truthyArg v \<and> tok_value token \<noteq> the v)
         then Inl (Error (expectMessage ty v token (ppos ps)))
         else Inr (token, advance ps))"

definition colorNames :: "string list" where
  "colorNames =
     [''red'', ''blue'', ''green'', ''yellow'', ''orange'', ''purple'', ''pink'', ''brown'',
      ''black'', ''white'', ''gray'', ''grey'', ''cyan'', ''magenta'', ''lime'', ''navy'',
      ''teal'', ''aqua'', ''maroon'', ''olive'', ''silver'', ''gold'', ''violet'', ''indigo'',
      ''coral'', ''salmon'', ''khaki'', ''crimson'', ''azure'', ''beige'', ''tan'', ''ivory'',
      ''turquoise'', ''plum'', ''orchid'', ''lavender'', ''mint'', ''peach'', ''chocolate'',
      ''tomato'', ''wheat'', ''snow'', ''seashell'', ''linen'', ''honeydew'', ''aliceblue'',
      ''lightblue'', ''darkblue'', ''lightgreen'', ''darkgreen'', ''lightgray'', ''darkgray'',
      ''lightgrey'', ''darkgrey'', ''lightyellow'', ''darkyellow'', ''lightpink'', ''darkpink'']"

definition isColorName :: "string \<Rightarrow> bool" where
  "isColorName v = (toLowerCase v \<in> set colorNames)"

definition positionKeywords :: "string list" where
  "positionKeywords = [''top'', ''bottom'', ''left'', ''right'', ''center'']"

definition isPositionKeyword :: "string \<Rightarrow> bool" where
  "isPositionKeyword v = (toLowerCase v \<in> set positionKeywords)"

text \<open>\<^verbatim>\<open>properties[key] = value\<close> on a plain object whose keys are identifiers: an
  existing key keeps its place, a new key goes to the end. Assigning an object to
  \<^verbatim>\<open>__proto__\<close> sets the prototype and adds no property.\<close>

fun objSet :: "(string \<times> 'a) list \<Rightarrow> string \<Rightarrow> 'a \<Rightarrow> (string \<times> 'a) list" where
  "objSet [] k v = [(k, v)]"
| "objSet ((k', v') # kvs) k v = (if k' = k then (k, v) # kvs else (k', v') # objSet kvs k v)"

definition objAssign :: "(string \<times> 'a) list \<Rightarrow> string \<Rightarrow> 'a \<Rightarrow> (string \<times> 'a) list" where
  "objAssign kvs k v = (if k = ''__proto__'' then kvs else objSet kvs k v)"

text \<open>
  The result of a parsing function: it returns a value and the parser with its cursor
  moved, or it throws. Nothing in the source bounds the loops or the nesting (a loop of
  \<^verbatim>\<open>parseArray\<close> whose expression consumes nothing never ends), so the functions take a
  fuel argument \<open>n\<close>: a loop makes at most \<open>n\<close> turns and expressions nest at most \<open>n\<close>
  deep. \<open>NoFuel\<close> says the fuel ran out. The parameter \<open>pe\<close> of a function stands for
  the \<^verbatim>\<open>this.parseExpression\<close> it calls; \<open>parseExpression\<close> below ties the knot.
\<close>

datatype 'a res = Return 'a | Raise error | NoFuel

fun bind :: "'a res \<Rightarrow> ('a \<Rightarrow> 'b res) \<Rightarrow> 'b res" where
  "bind (Return x) f = f x"
| "bind (Raise e) f = Raise e"
| "bind NoFuel f = NoFuel"

text \<open>\<^verbatim>\<open>expect\<close> inside a parsing function.\<close>

definition expectR :: "parser \<Rightarrow> tokType \<Rightarrow> string option \<Rightarrow> (token \<times> parser) res" where
  "expectR ps ty v = (case expect ps ty v of Inl e \<Rightarrow> Raise e | Inr r \<Rightarrow> Return r)"

text \<open>\<^verbatim>\<open>if (this.peek().value === c) this.pos++\<close>\<close>

definition skipIf :: "string \<Rightarrow> parser \<Rightarrow> parser" where
  "skipIf c ps = (if tok_value (peek ps) = c then advance ps else ps)"

type_synonym exprParser = "parser \<Rightarrow> (expr \<times> parser) res"

fun parseArray_loop :: "exprParser \<Rightarrow> nat \<Rightarrow> expr list \<Rightarrow> parser \<Rightarrow> (expr list \<times> parser) res" where
  "parseArray_loop pe 0 elements ps = NoFuel"
| "parseArray_loop pe (Suc k) elements ps =
     (if tok_value (peek ps) \<noteq> '']'' \<and> \<not> isAtEnd ps
      then bind (pe ps) (\<lambda>(e, ps1). parseArray_loop pe k (elements @ [e]) (skipIf '','' ps1))
      else Return (elements, ps))"

definition parseArray :: "exprParser \<Rightarrow> nat \<Rightarrow> exprParser" where
  "parseArray pe n ps =
     bind (expectR ps SYMBOL (Some ''['')) (\<lambda>(_, ps1).
       bind (parseArray_loop pe n [] ps1) (\<lambda>(elements, ps2).
         bind (expectR ps2 SYMBOL (Some '']'')) (\<lambda>(_, ps3).
           Return (ArrayE elements, ps3))))"

fun parseObject_loop ::
  "exprParser \<Rightarrow> nat \<Rightarrow> (string \<times> expr) list \<Rightarrow> parser \<Rightarrow> ((string \<times> expr) list \<times> parser) res"
where
  "parseObject_loop pe 0 properties ps = NoFuel"
| "parseObject_loop pe (Suc k) properties ps =
     (if tok_value (peek ps) \<noteq> ''}'' \<and> \<not> isAtEnd ps
      then bind (expectR ps IDENTIFIER None) (\<lambda>(key, ps1).
             bind (expectR ps1 SYMBOL (Some '':'')) (\<lambda>(_, ps2).
               bind (pe ps2) (\<lambda>(v, ps3).
                 parseObject_loop pe k (objAssign properties (tok_value key) v)
                   (skipIf '','' ps3))))
      else Return (properties, ps))"

definition parseObject :: "exprParser \<Rightarrow> nat \<Rightarrow> exprParser" where
  "parseObject pe n ps =
     bind (expectR ps SYMBOL (Some ''{'')) (\<lambda>(_, ps1).
       bind (parseObject_loop pe n [] ps1) (\<lambda>(properties, ps2).
         bind (expectR ps2 SYMBOL (Some ''}'')) (\<lambda>(_, ps3).
           Return (ObjectE properties, ps3))))"

definition parsePrimary :: "exprParser \<Rightarrow> nat \<Rightarrow> exprParser" where
  "parsePrimary pe n ps =
     (let token = peek ps
      in if tok_type token = STRING then Return (StringE (tok_value token), advance ps)
         else if tok_type token = NUMBER then Return (NumberE (tok_value token), advance ps)
         else if tok_value token = ''['' then parseArray pe n ps
         else if tok_value token = ''{'' \<and> tok_type (peekAhead ps 1) = IDENTIFIER
           then parseObject pe n ps
         else if tok_type token = IDENTIFIER then
           (let v = tok_value token
            in if v = ''true'' \<or> v = ''false''
               then Return (BooleanE (v = ''true''), advance ps)
               else
                 (let ps1 = advance ps
                  in if tok_value (peek ps1) = ''.''
                     then bind (expectR (advance ps1) IDENTIFIER None) (\<lambda>(property, ps2).
                            Return (DotNotation v (tok_value property), ps2))
                     else if startsWith v ''#'' \<or> isColorName v \<or> isPositionKeyword v
                       then Return (StringE v, ps1)
                     else Return (VariableE v, ps1)))
         else Return (NullE, ps))"

fun parseMultiplicative_loop :: "exprParser \<Rightarrow> nat \<Rightarrow> expr \<Rightarrow> exprParser" where
  "parseMultiplicative_loop sub 0 left ps = NoFuel"
| "parseMultiplicative_loop sub (Suc k) left ps =
     (if tok_value (peek ps) \<noteq> [] \<and> tok_value (peek ps) \<in> set [''*'', ''/'', ''%'']
      then bind (sub (advance ps)) (\<lambda>(right, ps1).
             parseMultiplicative_loop sub k (BinaryExpression (tok_value (peek ps)) left right) ps1)
      else Return (left, ps))"

definition parseMultiplicative :: "exprParser \<Rightarrow> nat \<Rightarrow> exprParser" where
  "parseMultiplicative pe n ps =
     bind (parsePrimary pe n ps) (\<lambda>(left, ps1).
       parseMultiplicative_loop (parsePrimary pe n) n left ps1)"

fun parseAdditive_loop :: "exprParser \<Rightarrow> nat \<Rightarrow> expr \<Rightarrow> exprParser" where
  "parseAdditive_loop sub 0 left ps = NoFuel"
| "parseAdditive_loop sub (Suc k) left ps =
     (if tok_value (peek ps) \<noteq> [] \<and> tok_value (peek ps) \<in> set [''+'', ''-'']
      then bind (sub (advance ps)) (\<lambda>(right, ps1).
             parseAdditive_loop sub k (BinaryExpression (tok_value (peek ps)) left right) ps1)
      else Return (left, ps))"

definition parseAdditive :: "exprParser \<Rightarrow> nat \<Rightarrow> exprParser" where
  "parseAdditive pe n ps =
     bind (parseMultiplicative pe n ps) (\<lambda>(left, ps1).
       parseAdditive_loop (parseMultiplicative pe n) n left ps1)"

fun parseComparison_loop :: "exprParser \<Rightarrow> nat \<Rightarrow> expr \<Rightarrow> exprParser" where
  "parseComparison_loop sub 0 left ps = NoFuel"
| "parseComparison_loop sub (Suc k) left ps =
     (if tok_value (peek ps) \<noteq> [] \<and> tok_value (peek ps) \<in> set [''<'', ''>'', ''<='', ''>='']
      then bind (sub (advance ps)) (\<lambda>(right, ps1).
             parseComparison_loop sub k (BinaryExpression (tok_value (peek ps)) left right) ps1)
      else Return (left, ps))"

definition parseComparison :: "exprParser \<Rightarrow> nat \<Rightarrow> exprParser" where
  "parseComparison pe n ps =
     bind (parseAdditive pe n ps) (\<lambda>(left, ps1).
       parseComparison_loop (parseAdditive pe n) n left ps1)"

fun parseLogical_loop :: "exprParser \<Rightarrow> nat \<Rightarrow> expr \<Rightarrow> exprParser" where
  "parseLogical_loop sub 0 left ps = NoFuel"
| "parseLogical_loop sub (Suc k) left ps =
     (if tok_type (peek ps) = OPERATOR \<and> tok_value (peek ps) \<in> set [''=='', ''!='']
      then bind (sub (advance ps)) (\<lambda>(right, ps1).
             parseLogical_loop sub k (BinaryExpression (tok_value (peek ps)) left right) ps1)
      else Return (left, ps))"

definition parseLogical :: "exprParser \<Rightarrow> nat \<Rightarrow> exprParser" where
  "parseLogical pe n ps =
     bind (parseComparison pe n ps) (\<lambda>(left, ps1).
       parseLogical_loop (parseComparison pe n) n left ps1)"

definition parseTernary :: "exprParser \<Rightarrow> nat \<Rightarrow> exprParser" where
  "parseTernary pe n ps =
     bind (parseLogical pe n ps) (\<lambda>(expr, ps1).
       if tok_value (peek ps1) = ''?''
       then bind (pe (advance ps1)) (\<lambda>(trueExpr, ps2).
              bind (expectR ps2 SYMBOL (Some '':'')) (\<lambda>(_, ps3).
                bind (pe ps3) (\<lambda>(falseExpr, ps4).
                  Return (Ternary expr trueExpr falseExpr, ps4))))
       else Return (expr, ps1))"

fun parseExpression :: "nat \<Rightarrow> exprParser" where
  "parseExpression 0 ps = NoFuel"
| "parseExpression (Suc n) ps = parseTernary (parseExpression n) (Suc n) ps"

section \<open>PSLCompiler: values and actions\<close>

text \<open>\<^verbatim>\<open>parts.join(sep)\<close>\<close>

fun join :: "string \<Rightarrow> string list \<Rightarrow> string" where
  "join sep [] = []"
| "join sep [x] = x"
| "join sep (x # y # ys) = x @ sep @ join sep (y # ys)"

text \<open>\<^verbatim>\<open>valueToString(value)\<close>, for a value that is an expression node.\<close>

fun valueToString :: "expr \<Rightarrow> string" where
  "valueToString (StringE s) = s"
| "valueToString (NumberE s) = s"
| "valueToString (BooleanE b) = (if b then ''true'' else ''false'')"
| "valueToString (VariableE s) = s"
| "valueToString (ArrayE es) = ''['' @ join '', '' (map valueToString es) @ '']''"
| "valueToString (ObjectE kvs) =
     ''{'' @ join '', '' (map (\<lambda>(k, v). k @ '': '' @ valueToString v) kvs) @ ''}''"
| "valueToString _ = ''''"

text \<open>\<^verbatim>\<open>valueToString(value)\<close> for a field that may be \<^verbatim>\<open>null\<close>.\<close>

fun valueToStringOpt :: "expr option \<Rightarrow> string" where
  "valueToStringOpt None = ''''"
| "valueToStringOpt (Some v) = valueToString v"

text \<open>\<^verbatim>\<open>s.replace(/"/g, '\\"')\<close>: a backslash before every double quote.\<close>

fun escapeQuotes :: "string \<Rightarrow> string" where
  "escapeQuotes [] = []"
| "escapeQuotes (c # cs) = (if c = dquote then [bslash, dquote] else [c]) @ escapeQuotes cs"

text \<open>The branch of \<^verbatim>\<open>valueToJSString\<close> for a dotted reference.\<close>

definition dotNotationToJS :: "string \<Rightarrow> string \<Rightarrow> string" where
  \<open>dotNotationToJS object prop =
    (if prop = ''text'' then
       ''(window.psl_elements.''
       @ object
       @ '' ? window.psl_elements.''
       @ object
       @ ''.textContent : ''
       @ [squote, squote]
       @ '')''
     else if prop = ''value'' then
       ''(window.psl_elements.''
       @ object
       @ '' ? window.psl_elements.''
       @ object
       @ ''.value : ''
       @ [squote, squote]
       @ '')''
     else if prop = ''src'' then
       ''(window.psl_elements.''
       @ object
       @ '' ? window.psl_elements.''
       @ object
       @ ''.src : ''
       @ [squote, squote]
       @ '')''
     else if prop = ''bg'' then
       ''(window.psl_elements.''
       @ object
       @ '' ? window.psl_elements.''
       @ object
       @ ''.style.backgroundColor : ''
       @ [squote, squote]
       @ '')''
     else if prop = ''color'' then
       ''(window.psl_elements.''
       @ object
       @ '' ? window.psl_elements.''
       @ object
       @ ''.style.color : ''
       @ [squote, squote]
       @ '')''
     else if prop = ''size'' then
       ''(window.psl_elements.''
       @ object
       @ '' ? parseInt(window.psl_elements.''
       @ object
       @ ''.style.fontSize) : 0)''
     else if prop = ''width'' then
       ''(window.psl_elements.''
       @ object
       @ '' ? parseInt(window.psl_elements.''
       @ object
       @ ''.style.width) : 0)''
     else if prop = ''height'' then
       ''(window.psl_elements.''
       @ object
       @ '' ? parseInt(window.psl_elements.''
       @ object
       @ ''.style.height) : 0)''
     else
       ''(window.psl_elements.''
       @ object
       @ '' ? window.psl_elements.''
       @ object
       @ ''.getAttribute('data-''
       @ prop
       @ [squote]
       @ '') : ''
       @ [squote, squote]
       @ '')'')\<close>

fun valueToJSString :: "expr \<Rightarrow> string" where
  "valueToJSString (StringE s) = [dquote] @ escapeQuotes s @ [dquote]"
| "valueToJSString (NumberE s) = s"
| "valueToJSString (BooleanE b) = (if b then ''true'' else ''false'')"
| "valueToJSString (VariableE s) = ''window.psl_vars.'' @ s"
| "valueToJSString (ArrayE es) = ''['' @ join '', '' (map valueToJSString es) @ '']''"
| "valueToJSString (ObjectE kvs) =
     ''{'' @ join '', '' (map (\<lambda>(k, v). k @ '': '' @ valueToJSString v) kvs) @ ''}''"
| "valueToJSString (DotNotation object prop) = dotNotationToJS object prop"
| "valueToJSString (BinaryExpression operator left right) =
     ''('' @ valueToJSString left @ '' '' @ (if operator = ''=='' then ''==='' else operator)
       @ '' '' @ valueToJSString right @ '')''"
| "valueToJSString (Ternary condition trueExpr falseExpr) =
     ''('' @ valueToJSString condition @ '' ? '' @ valueToJSString trueExpr @ '' : ''
       @ valueToJSString falseExpr @ '')''"
| "valueToJSString NullE = ''null''"

text \<open>
  The actions of a handler, watcher, interval or key handler: \<^verbatim>\<open>assignment\<close> (key,
  value), \<^verbatim>\<open>functionCall\<close> (name, args), \<^verbatim>\<open>if\<close> (condition, body, elseBody, which is
  \<^verbatim>\<open>null\<close> when there is no else) and \<^verbatim>\<open>wait\<close> (duration, body).
\<close>

datatype action =
    Assignment string expr
  | FunctionCall string "expr list"
  | IfAction expr "action list" "action list option"
  | WaitAction expr "action list"

text \<open>\<^verbatim>\<open>s.split('.')\<close>\<close>

fun splitOn :: "char \<Rightarrow> string \<Rightarrow> string list" where
  "splitOn d [] = [[]]"
| "splitOn d (c # cs) =
     (if c = d then [] # splitOn d cs
      else (case splitOn d cs of [] \<Rightarrow> [[c]] | p # ps \<Rightarrow> (c # p) # ps))"

text \<open>The names every plain object inherits from \<^verbatim>\<open>Object.prototype\<close>; a lookup
  \<^verbatim>\<open>obj[name]\<close> finds a truthy value for them even when \<^verbatim>\<open>obj\<close> has no such property
  of its own.\<close>

definition objectPrototypeKeys :: "string list" where
  "objectPrototypeKeys =
     [''constructor'', ''__defineGetter__'', ''__defineSetter__'', ''hasOwnProperty'',
      ''__lookupGetter__'', ''__lookupSetter__'', ''isPrototypeOf'', ''propertyIsEnumerable'',
      ''toString'', ''valueOf'', ''__proto__'', ''toLocaleString'']"

text \<open>\<^verbatim>\<open>this.ast.pages && this.ast.pages[elemName]\<close> as a condition; \<open>pageNames\<close> are
  the keys of \<^verbatim>\<open>ast.pages\<close>.\<close>

definition isPage :: "string list \<Rightarrow> string \<Rightarrow> bool" where
  "isPage pageNames elemName = (elemName \<in> set pageNames \<or> elemName \<in> set objectPrototypeKeys)"

definition pageHideJS :: "string \<Rightarrow> string" where
  \<open>pageHideJS elemName =
       ''\<newline>''
       @ ''              const pageEl = document.querySelector('[data-page="''
       @ elemName
       @ ''"]');\<newline>''
       @ ''              if (pageEl) {\<newline>''
       @ ''                pageEl.classList.remove('active');\<newline>''
       @ ''                pageEl.style.display = 'none';\<newline>''
       @ ''              }\<newline>''
       @ ''            ''\<close>

definition pageShowJS :: "string \<Rightarrow> string" where
  \<open>pageShowJS elemName =
       ''\<newline>''
       @ ''              document.querySelectorAll('[data-page]').forEach(p => p.classList.remove('active'));\<newline>''
       @ ''              const pageEl = document.querySelector('[data-page="''
       @ elemName
       @ ''"]');\<newline>''
       @ ''              if (pageEl) {\<newline>''
       @ ''                pageEl.classList.add('active');\<newline>''
       @ ''                pageEl.style.display = 'block';\<newline>''
       @ ''              }\<newline>''
       @ ''            ''\<close>

definition elementAssignJS :: "string \<Rightarrow> string \<Rightarrow> string \<Rightarrow> string" where
  \<open>elementAssignJS elemName prop v =
       ''\<newline>''
       @ ''          if (window.psl_elements && window.psl_elements[''
       @ [squote]
       @ elemName
       @ [squote]
       @ '']) {\<newline>''
       @ ''            const el = window.psl_elements[''
       @ [squote]
       @ elemName
       @ [squote]
       @ ''];\<newline>''
       @ ''            const propValue = ''
       @ v
       @ '';\<newline>''
       @ ''            if (''
       @ [squote]
       @ prop
       @ [squote]
       @ '' === 'text') {\<newline>''
       @ ''              el.textContent = propValue;\<newline>''
       @ ''            } else if (''
       @ [squote]
       @ prop
       @ [squote]
       @ '' === 'value') {\<newline>''
       @ ''              el.value = propValue;\<newline>''
       @ ''            } else if (''
       @ [squote]
       @ prop
       @ [squote]
       @ '' === 'src') {\<newline>''
       @ ''              el.src = propValue;\<newline>''
       @ ''            } else if (''
       @ [squote]
       @ prop
       @ [squote]
       @ '' === 'bg') {\<newline>''
       @ ''              el.style.backgroundColor = propValue;\<newline>''
       @ ''            } else if (''
       @ [squote]
       @ prop
       @ [squote]
       @ '' === 'color') {\<newline>''
       @ ''              el.style.color = propValue;\<newline>''
       @ ''            } else if (''
       @ [squote]
       @ prop
       @ [squote]
       @ '' === 'size') {\<newline>''
       @ ''              el.style.fontSize = propValue + 'px';\<newline>''
       @ ''            } else if (''
       @ [squote]
       @ prop
       @ [squote]
       @ '' === 'hide') {\<newline>''
       @ ''              el.style.display = (propValue === true || propValue === 1 || propValue === '1') ? 'none' : 'block';\<newline>''
       @ ''            } else if (''
       @ [squote]
       @ prop
       @ [squote]
       @ '' === 'show') {\<newline>''
       @ ''              el.style.display = (propValue === false || propValue === 0 || propValue === '0') ? 'none' : 'block';\<newline>''
       @ ''            } else if (''
       @ [squote]
       @ prop
       @ [squote]
       @ '' === 'radius') {\<newline>''
       @ ''              el.style.borderRadius = propValue + 'px';\<newline>''
       @ ''            } else if (''
       @ [squote]
       @ prop
       @ [squote]
       @ '' === 'border-size') {\<newline>''
       @ ''              el.style.borderWidth = propValue + 'px';\<newline>''
       @ ''            } else if (''
       @ [squote]
       @ prop
       @ [squote]
       @ '' === 'border-color') {\<newline>''
       @ ''              el.style.borderColor = propValue;\<newline>''
       @ ''            } else if (''
       @ [squote]
       @ prop
       @ [squote]
       @ '' === 'padding') {\<newline>''
       @ ''              el.style.padding = propValue + 'px';\<newline>''
       @ ''            } else if (''
       @ [squote]
       @ prop
       @ [squote]
       @ '' === 'margin') {\<newline>''
       @ ''              el.style.margin = propValue + 'px';\<newline>''
       @ ''            } else if (''
       @ [squote]
       @ prop
       @ [squote]
       @ '' === 'width') {\<newline>''
       @ ''              el.style.width = propValue + 'px';\<newline>''
       @ ''            } else if (''
       @ [squote]
       @ prop
       @ [squote]
       @ '' === 'height') {\<newline>''
       @ ''              el.style.height = propValue + 'px';\<newline>''
       @ ''            } else {\<newline>''
       @ ''              el.setAttribute('data-' + ''
       @ [squote]
       @ prop
       @ [squote]
       @ '', propValue);\<newline>''
       @ ''            }\<newline>''
       @ ''            window.psl_triggerWatchers(''
       @ [squote]
       @ elemName
       @ [squote]
       @ '');\<newline>''
       @ ''          }\<newline>''
       @ ''        ''\<close>

definition storeAssignJS :: "string \<Rightarrow> string \<Rightarrow> string" where
  \<open>storeAssignJS key v =
       ''\<newline>''
       @ ''          window.psl_vars.''
       @ key
       @ '' = ''
       @ v
       @ '';\<newline>''
       @ ''          window.psl_triggerWatchers(''
       @ [squote]
       @ key
       @ [squote]
       @ '');\<newline>''
       @ ''        ''\<close>

text \<open>\<^verbatim>\<open>actionToJS(action, elementId)\<close>; \<open>pageNames\<close> are the keys of \<^verbatim>\<open>this.ast.pages\<close>.
  The destructuring \<^verbatim>\<open>[elemName, prop] = key.split('.')\<close> takes the first two parts, which
  exist when the key holds a dot.\<close>

fun actionToJS :: "string list \<Rightarrow> action \<Rightarrow> string \<Rightarrow> string" where
  "actionToJS pageNames (Assignment key value) elementId =
     (let v = valueToJSString value
      in if CHR ''.'' \<in> set key
         then (let elemName = splitOn (CHR ''.'') key ! 0;
                   prop = splitOn (CHR ''.'') key ! 1
               in if isPage pageNames elemName \<and> prop = ''hide'' then pageHideJS elemName
                  else if isPage pageNames elemName \<and> prop = ''show'' then pageShowJS elemName
                  else elementAssignJS elemName prop v)
         else storeAssignJS key v)"
| "actionToJS pageNames (FunctionCall name as) elementId =
     (let args = join '', '' (map valueToJSString as)
      in if name = ''log'' then ''console.log('' @ args @ '');\<newline>''
         else if name = ''alert'' then ''alert('' @ args @ '');\<newline>''
         else if name = ''notify'' then ''notify('' @ args @ '');\<newline>''
         else if name = ''save'' then ''save('' @ args @ '');\<newline>''
         else if name = ''load'' then ''load('' @ args @ '');\<newline>''
         else ''window.'' @ name @ ''('' @ args @ '');\<newline>'')"
| "actionToJS pageNames (IfAction condition body elseBody) elementId =
     (let cond = valueToJSString condition;
          ifBody = concat (map (\<lambda>s. actionToJS pageNames s elementId) body);
          js = ''if ('' @ cond @ '') { '' @ ifBody @ '' }''
      in (case elseBody of
            None \<Rightarrow> js
          | Some eb \<Rightarrow>
              if length eb > 0
              then js @ '' else { '' @ concat (map (\<lambda>s. actionToJS pageNames s elementId) eb) @ '' }''
              else js) @ ''\<newline>'')"
| "actionToJS pageNames (WaitAction duration body) elementId =
     ''await new Promise(resolve => setTimeout(resolve, '' @ valueToJSString duration @ '')); ''
       @ concat (map (\<lambda>s. actionToJS pageNames s elementId) body)"


section \<open>PSLCompiler: style values and the attributes of an element\<close>

definition sizingKeys :: "string list" where
  "sizingKeys = [''width'', ''height'', ''size'', ''border-size'', ''padding'', ''margin'',
                 ''gap'', ''radius'']"

text \<open>\<^verbatim>\<open>s.trim()\<close>\<close>

definition trim :: "string \<Rightarrow> string" where
  "trim s = rev (dropWhile isSpace (rev (dropWhile isSpace s)))"

text \<open>
  \<^verbatim>\<open>/\d+\.?\d*(px|vw|vh|%|em|rem|vmin|vmax|cm|mm|in|pt|pc)\s*$/i.test(s)\<close>. The test
  looks for a match starting anywhere in \<open>s\<close>. A match that starts at a given digit takes
  the whole run of digits there, then a dot if one follows, then the whole run of digits
  after it (no unit starts with a digit or a dot, so nothing shorter can go on), then one
  of the units, letters compared without case, then white space up to the end.
\<close>

definition cssUnits :: "string list" where
  "cssUnits = [''px'', ''vw'', ''vh'', ''%'', ''em'', ''rem'', ''vmin'', ''vmax'',
               ''cm'', ''mm'', ''in'', ''pt'', ''pc'']"

definition dropOptDot :: "string \<Rightarrow> string" where
  "dropOptDot s = (case s of [] \<Rightarrow> [] | c # cs \<Rightarrow> if c = CHR ''.'' then cs else s)"

definition unitRegexAt :: "string \<Rightarrow> bool" where
  "unitRegexAt s =
     (case s of
        [] \<Rightarrow> False
      | c # _ \<Rightarrow>
          isDigit c \<and>
          (let r = dropWhile isDigit (dropOptDot (dropWhile isDigit s))
           in list_ex (\<lambda>u. toLowerCase (take (length u) r) = u
                            \<and> list_all isSpace (drop (length u) r)) cssUnits))"

fun unitRegexTest :: "string \<Rightarrow> bool" where
  "unitRegexTest [] = False"
| "unitRegexTest (c # cs) = (unitRegexAt (c # cs) \<or> unitRegexTest cs)"

text \<open>\<^verbatim>\<open>/^\d+\.?\d*$/.test(s)\<close>\<close>

definition plainNumberTest :: "string \<Rightarrow> bool" where
  "plainNumberTest s =
     (case s of
        [] \<Rightarrow> False
      | c # _ \<Rightarrow> isDigit c \<and> list_all isDigit (dropOptDot (dropWhile isDigit s)))"

text \<open>\<^verbatim>\<open>isNaN(parseFloat(s))\<close>: \<^verbatim>\<open>parseFloat\<close> skips leading white space and reads the
  longest prefix that is a decimal literal; the result is \<^verbatim>\<open>NaN\<close> when, after an
  optional sign, the text starts neither with \<^verbatim>\<open>Infinity\<close>, nor with a digit, nor with a
  dot before a digit.\<close>

definition parseFloatIsNaN :: "string \<Rightarrow> bool" where
  "parseFloatIsNaN s =
     (let t = dropWhile isSpace s;
          u = (case t of [] \<Rightarrow> [] | c # cs \<Rightarrow> if c = CHR ''+'' \<or> c = CHR ''-'' then cs else t)
      in \<not> (startsWith u ''Infinity''
             \<or> (case u of
                   [] \<Rightarrow> False
                 | c # cs \<Rightarrow> isDigit c
                      \<or> (c = CHR ''.'' \<and> (case cs of [] \<Rightarrow> False | d # _ \<Rightarrow> isDigit d)))))"

definition getStyleValue :: "string \<Rightarrow> string \<Rightarrow> string" where
  "getStyleValue key strValue =
     (if key \<in> set sizingKeys
      then (let trimmed = trim strValue
            in if unitRegexTest trimmed \<or> CHR ''%'' \<in> set trimmed then trimmed
               else if \<not> parseFloatIsNaN trimmed \<and> plainNumberTest trimmed then trimmed @ ''px''
               else trimmed)
      else strValue)"

text \<open>\<^verbatim>\<open>getElementTag(name)\<close>: \<^verbatim>\<open>tagMap[name] || 'div'\<close>. For a name that every object
  inherits, the lookup finds the inherited function (or, for \<^verbatim>\<open>__proto__\<close>, the prototype
  object), which is truthy; the tag is then its text, as the template prints it.\<close>

definition tagMap :: "(string \<times> string) list" where
  "tagMap = [(''title'', ''h1''), (''text'', ''p''), (''button'', ''button''),
             (''input'', ''input''), (''image'', ''img''), (''container'', ''div''),
             (''box'', ''div'')]"

definition getElementTag :: "string \<Rightarrow> string" where
  "getElementTag name =
     (case map_of tagMap name of
        Some tag \<Rightarrow> tag
      | None \<Rightarrow>
          if name = ''__proto__'' then ''[object Object]''
          else if name = ''constructor'' then ''function Object() { [native code] }''
          else if name \<in> set objectPrototypeKeys then ''function '' @ name @ ''() { [native code] }''
          else ''div'')"

text \<open>\<^verbatim>\<open>!value.value\<close> for an expression node: the \<^verbatim>\<open>value\<close> field of a string, number or
  variable node is its text, of a boolean node its truth value, of a null node
  \<^verbatim>\<open>null\<close>; the other nodes have no such field.\<close>

fun valueFieldFalsy :: "expr \<Rightarrow> bool" where
  "valueFieldFalsy (StringE s) = (s = [])"
| "valueFieldFalsy (NumberE s) = (s = [])"
| "valueFieldFalsy (BooleanE b) = (\<not> b)"
| "valueFieldFalsy (VariableE s) = (s = [])"
| "valueFieldFalsy _ = True"

text \<open>The four paddings \<^verbatim>\<open>generateElement\<close> reads off the page padding. With more than
  four parts the variables stay \<^verbatim>\<open>undefined\<close>, which a template prints as that word.\<close>

record paddings =
  topPadding :: string
  rightPadding :: string
  bottomPadding :: string
  leftPadding :: string

definition paddingsOf :: "string \<Rightarrow> paddings" where
  "paddingsOf pagePadding =
     (let paddingParts = splitOn (CHR '' '') pagePadding
      in if length paddingParts = 1
         then \<lparr>topPadding = paddingParts ! 0, rightPadding = paddingParts ! 0,
               bottomPadding = paddingParts ! 0, leftPadding = paddingParts ! 0\<rparr>
         else if length paddingParts = 2
         then \<lparr>topPadding = paddingParts ! 0, rightPadding = paddingParts ! 1,
               bottomPadding = paddingParts ! 0, leftPadding = paddingParts ! 1\<rparr>
         else if length paddingParts = 3
         then \<lparr>topPadding = paddingParts ! 0, rightPadding = paddingParts ! 1,
               bottomPadding = paddingParts ! 2, leftPadding = paddingParts ! 1\<rparr>
         else if length paddingParts = 4
         then \<lparr>topPadding = paddingParts ! 0, rightPadding = paddingParts ! 1,
               bottomPadding = paddingParts ! 2, leftPadding = paddingParts ! 3\<rparr>
         else \<lparr>topPadding = ''undefined'', rightPadding = ''undefined'',
               bottomPadding = ''undefined'', leftPadding = ''undefined''\<rparr>)"

text \<open>The first loop over the properties of an element: what it learns about base
  positioning and alignment. \<open>None\<close> stands for \<^verbatim>\<open>null\<close>.\<close>

record alignState =
  hasBasePositioning :: bool
  basePosition :: "string option"
  horizontalAlign :: "string option"
  needsWrapper :: bool
  justifyContent :: "string option"
  alignItems :: "string option"
  isFixed :: bool

definition alignInit :: alignState where
  "alignInit = \<lparr>hasBasePositioning = False, basePosition = None, horizontalAlign = None,
                needsWrapper = False, justifyContent = None, alignItems = None, isFixed = False\<rparr>"

definition flagSet :: "string \<Rightarrow> expr \<Rightarrow> bool" where
  "flagSet strValue value = (strValue = ''true'' \<or> strValue = ''1'' \<or> valueFieldFalsy value)"

definition alignStep :: "alignState \<Rightarrow> string \<times> expr \<Rightarrow> alignState" where
  "alignStep a kv =
     (case kv of (key, value) \<Rightarrow>
        (let strValue = valueToString value
         in if key = ''base''
            then a\<lparr>hasBasePositioning := True, basePosition := Some strValue\<rparr>
            else if key = ''fixed'' then a\<lparr>isFixed := flagSet strValue value\<rparr>
            else if key = ''center''
            then (if flagSet strValue value
                  then (if \<not> hasBasePositioning a
                        then a\<lparr>horizontalAlign := Some ''center'', needsWrapper := True,
                               justifyContent := Some ''center'', alignItems := Some ''center''\<rparr>
                        else a\<lparr>horizontalAlign := Some ''center''\<rparr>)
                  else a)
            else if key = ''left''
            then (if \<not> hasBasePositioning a
                  then a\<lparr>horizontalAlign := Some ''left'', needsWrapper := True,
                         justifyContent := Some ''flex-start''\<rparr>
                  else a\<lparr>horizontalAlign := Some ''left''\<rparr>)
            else if key = ''right''
            then (if \<not> hasBasePositioning a
                  then a\<lparr>horizontalAlign := Some ''right'', needsWrapper := True,
                         justifyContent := Some ''flex-end''\<rparr>
                  else a\<lparr>horizontalAlign := Some ''right''\<rparr>)
            else a))"

text \<open>The flex wrapper: its opening and closing tags, empty when there is none.\<close>

definition wrapperStyles :: "alignState \<Rightarrow> string list" where
  "wrapperStyles a =
     [''display: flex'']
     @ (case justifyContent a of None \<Rightarrow> [] | Some j \<Rightarrow> [''justify-content: '' @ j])
     @ (case alignItems a of None \<Rightarrow> [] | Some i \<Rightarrow> [''align-items: '' @ i])"

definition wrapperOpen :: "alignState \<Rightarrow> string" where
  "wrapperOpen a =
     (if needsWrapper a \<and> \<not> hasBasePositioning a
      then ''<div style='' @ [dquote] @ join ''; '' (wrapperStyles a) @ [dquote] @ ''>''
      else '''')"

definition wrapperClose :: "alignState \<Rightarrow> string" where
  "wrapperClose a = (if needsWrapper a \<and> \<not> hasBasePositioning a then ''</div>'' else '''')"

text \<open>The second loop over the properties: the attributes appended to the opening tag,
  the style declarations, the registry name (\<^verbatim>\<open>var\<close>) and the drag flag.\<close>

record attrState =
  html :: string
  styles :: "string list"
  elementVarName :: "string option"
  dragData :: bool

definition pushStyles :: "attrState \<Rightarrow> string list \<Rightarrow> attrState" where
  "pushStyles st ss = st\<lparr>styles := styles st @ ss\<rparr>"

definition addHtml :: "attrState \<Rightarrow> string \<Rightarrow> attrState" where
  "addHtml st s = st\<lparr>html := html st @ s\<rparr>"

text \<open>The styles of the \<^verbatim>\<open>base\<close> property.\<close>

definition baseStyles :: "alignState \<Rightarrow> paddings \<Rightarrow> string \<Rightarrow> string list" where
  "baseStyles a p strValue =
     [''position: '' @ (if isFixed a then ''fixed'' else ''absolute'')]
     @ (if strValue = ''bottom''
        then [''bottom: '' @ bottomPadding p]
             @ (if horizontalAlign a = None
                then [''left: '' @ leftPadding p, ''right: '' @ rightPadding p] else [])
        else if strValue = ''top''
        then [''top: '' @ topPadding p]
             @ (if horizontalAlign a = None
                then [''left: '' @ leftPadding p, ''right: '' @ rightPadding p] else [])
        else if strValue = ''left''
        then [''left: '' @ leftPadding p, ''top: '' @ topPadding p, ''bottom: '' @ bottomPadding p]
        else if strValue = ''right''
        then [''right: '' @ rightPadding p, ''top: '' @ topPadding p, ''bottom: '' @ bottomPadding p]
        else [])
     @ (if horizontalAlign a = Some ''center''
        then [''left: 50%'', ''transform: translateX(-50%)'']
        else if horizontalAlign a = Some ''left'' then [''left: '' @ leftPadding p]
        else if horizontalAlign a = Some ''right'' then [''right: '' @ rightPadding p]
        else [])"

text \<open>\<open>hasLazy\<close> is \<^verbatim>\<open>el.props.lazy\<close> as a condition: the element has a property
  \<^verbatim>\<open>lazy\<close>. \<^verbatim>\<open>animValue[1] || '1s'\<close> is \<^verbatim>\<open>1s\<close> when the second part is missing or
  empty.\<close>

definition propStep ::
  "bool \<Rightarrow> alignState \<Rightarrow> paddings \<Rightarrow> attrState \<Rightarrow> string \<times> expr \<Rightarrow> attrState" where
  "propStep hasLazy a p st kv =
     (case kv of (key, value) \<Rightarrow>
        (let strValue = valueToString value
         in if key = ''text'' then st
            else if key = ''src''
            then addHtml st ('' src='' @ [dquote] @ strValue @ [dquote]
                   @ (if hasLazy then '' loading='' @ [dquote] @ ''lazy'' @ [dquote] else ''''))
            else if key = ''placeholder''
            then addHtml st ('' placeholder='' @ [dquote] @ strValue @ [dquote])
            else if key = ''var'' then st\<lparr>elementVarName := Some strValue\<rparr>
            else if key = ''draggable''
            then (if strValue = ''true'' \<or> strValue = ''1''
                  then (addHtml st ('' draggable='' @ [dquote] @ ''true'' @ [dquote]))\<lparr>dragData := True\<rparr>
                  else st)
            else if key = ''lazy'' then st
            else if key = ''animate''
            then (let animValue = splitOn (CHR '' '') strValue;
                      animName = animValue ! 0;
                      animDuration = (if length animValue > 1 \<and> animValue ! 1 \<noteq> []
                                      then animValue ! 1 else ''1s'')
                  in pushStyles st [''animation: '' @ animName @ '' '' @ animDuration])
            else if key = ''layout''
            then (if strValue = ''flex'' then pushStyles st [''display: flex'']
                  else if strValue = ''grid'' then pushStyles st [''display: grid'']
                  else st)
            else if key = ''direction''
            then (if strValue = ''row'' then pushStyles st [''flex-direction: row'']
                  else if strValue = ''column'' then pushStyles st [''flex-direction: column'']
                  else st)
            else if key = ''wrap''
            then (if strValue = ''true'' \<or> strValue = ''1'' then pushStyles st [''flex-wrap: wrap'']
                  else st)
            else if key = ''align''
            then (if strValue = ''center'' then pushStyles st [''align-items: center'']
                  else if strValue = ''start'' then pushStyles st [''align-items: flex-start'']
                  else if strValue = ''end'' then pushStyles st [''align-items: flex-end'']
                  else st)
            else if key = ''justify''
            then (if strValue = ''center'' then pushStyles st [''justify-content: center'']
                  else if strValue = ''start'' then pushStyles st [''justify-content: flex-start'']
                  else if strValue = ''end'' then pushStyles st [''justify-content: flex-end'']
                  else if strValue = ''between'' then pushStyles st [''justify-content: space-between'']
                  else if strValue = ''around'' then pushStyles st [''justify-content: space-around'']
                  else st)
            else if key = ''shadow'' then pushStyles st [''box-shadow: '' @ strValue]
            else if key = ''blur''
            then pushStyles st [''filter: blur('' @ getStyleValue ''blur'' strValue @ '')'']
            else if key = ''opacity'' then pushStyles st [''opacity: '' @ strValue]
            else if key = ''base'' then pushStyles st (baseStyles a p strValue)
            else if key = ''fixed'' then st
            else if key = ''center'' \<or> key = ''left'' \<or> key = ''right'' then st
            else if key = ''top'' \<or> key = ''bottom'' then st
            else if key = ''size'' then pushStyles st [''font-size: '' @ getStyleValue key strValue]
            else if key = ''font'' then pushStyles st [''font-family: '' @ strValue]
            else if key = ''radius''
            then pushStyles st [''border-radius: '' @ getStyleValue key strValue]
            else if key = ''border-color'' then pushStyles st [''border-color: '' @ strValue]
            else if key = ''border-size''
            then pushStyles st [''border-width: '' @ getStyleValue key strValue, ''border-style: solid'']
            else if key = ''bg''
            then (if str_includes strValue ''gradient''
                  then pushStyles st [''background: '' @ strValue]
                  else pushStyles st [''background-color: '' @ strValue])
            else if key = ''color'' then pushStyles st [''color: '' @ strValue]
            else if key = ''show''
            then (if strValue = ''false'' \<or> strValue = ''0'' then pushStyles st [''display: none'']
                  else st)
            else if key = ''hide''
            then (if strValue = ''true'' \<or> strValue = ''1'' then pushStyles st [''display: none'']
                  else st)
            else if key = ''width'' then pushStyles st [''width: '' @ getStyleValue key strValue]
            else if key = ''height'' then pushStyles st [''height: '' @ getStyleValue key strValue]
            else if key = ''padding'' then pushStyles st [''padding: '' @ getStyleValue key strValue]
            else if key = ''margin'' then pushStyles st [''margin: '' @ getStyleValue key strValue]
            else if key = ''gap'' then pushStyles st [''gap: '' @ getStyleValue key strValue]
            else addHtml st ('' data-'' @ key @ ''='' @ [dquote] @ strValue @ [dquote])))"

text \<open>\<^verbatim>\<open>interpolateTemplateString(text)\<close>: every \<^verbatim>\<open>{name}\<close> (a brace, one or more
  characters other than a closing brace, a closing brace) becomes a placeholder span
  for the trimmed name.\<close>

definition varSpan :: "string \<Rightarrow> string" where
  "varSpan varName =
     ''<span class='' @ [dquote] @ ''psl-var'' @ [dquote] @ '' data-var='' @ [dquote]
       @ trim varName @ [dquote] @ ''></span>''"


section \<open>PSLCompiler: elements\<close>

function interpolateTemplateString :: "string \<Rightarrow> string" where
  "interpolateTemplateString [] = []"
| "interpolateTemplateString (c # cs) =
     (if c = CHR ''{''
      then (let varName = takeWhile (\<lambda>x. x \<noteq> CHR ''}'') cs;
                rest = dropWhile (\<lambda>x. x \<noteq> CHR ''}'') cs
            in if varName \<noteq> [] \<and> rest \<noteq> []
               then varSpan varName @ interpolateTemplateString (tl rest)
               else c # interpolateTemplateString cs)
      else c # interpolateTemplateString cs)"
  by pat_completeness auto
termination
proof (relation "measure length")
  show "wf (measure length)" by simp
next
  fix c :: char and cs varName rest :: string
  assume r: "rest = dropWhile (\<lambda>x. x \<noteq> CHR ''}'') cs"
  have "length (dropWhile (\<lambda>x. x \<noteq> CHR ''}'') cs) \<le> length cs"
    by (rule length_dropWhile_le)
  with r have "length (tl rest) \<le> length cs" by simp
  then show "(tl rest, c # cs) \<in> measure length" by simp
qed simp_all

declare interpolateTemplateString.simps [simp del]

text \<open>\<^verbatim>\<open>s.replace(pattern, replacement)\<close> with a string pattern: the first occurrence
  only. The replacements used hold no dollar sign.\<close>

fun replaceFirst :: "string \<Rightarrow> string \<Rightarrow> string \<Rightarrow> string" where
  "replaceFirst pat rep [] = (if pat = [] then rep else [])"
| "replaceFirst pat rep (c # cs) =
     (if startsWith (c # cs) pat then rep @ drop (length pat) (c # cs)
      else c # replaceFirst pat rep cs)"

text \<open>An event handler of an element: the event name and the actions.\<close>

record handler =
  event :: string
  actions :: "action list"

text \<open>
  The nodes of a page: an \<^verbatim>\<open>Element\<close> (name, props in enumeration order, children,
  handlers) or a \<^verbatim>\<open>ForLoop\<close> (varName, collection, elements). A child of an element is
  an element, a loop, or an \<^verbatim>\<open>if\<close> node (condition, children, elseChildren, \<^verbatim>\<open>null\<close>
  when there is no else).
\<close>

datatype element =
    Element string "(string \<times> expr) list" "child list" "handler list"
  | ForLoop string expr "element list"
and child =
    IfChild expr "element list" "element list option"
  | ElemChild element

text \<open>\<^verbatim>\<open>replaceLoopVariable(el, varName, placeholder)\<close>: a deep copy in which a property
  that is the loop variable becomes the placeholder string, and a string property that
  holds \<^verbatim>\<open>{varName}\<close> has its first occurrence replaced. The copy goes down through
  \<^verbatim>\<open>children\<close> only: the else branch of an \<^verbatim>\<open>if\<close> and the elements of a nested loop
  are copied unchanged.\<close>

definition replaceProp :: "string \<Rightarrow> string \<Rightarrow> string \<times> expr \<Rightarrow> string \<times> expr" where
  "replaceProp varName placeholder kv =
     (case kv of (key, value) \<Rightarrow>
        (key, case value of
                VariableE x \<Rightarrow> if x = varName then StringE placeholder else value
              | StringE s \<Rightarrow>
                  if str_includes s (''{'' @ varName @ ''}'')
                  then StringE (replaceFirst (''{'' @ varName @ ''}'') placeholder s)
                  else value
              | _ \<Rightarrow> value))"

fun replaceLoopVariable :: "element \<Rightarrow> string \<Rightarrow> string \<Rightarrow> element"
  and replaceLoopVariable_child :: "child \<Rightarrow> string \<Rightarrow> string \<Rightarrow> child" where
  "replaceLoopVariable (Element name props children handlers) varName placeholder =
     Element name (map (replaceProp varName placeholder) props)
       (map (\<lambda>c. replaceLoopVariable_child c varName placeholder) children) handlers"
| "replaceLoopVariable (ForLoop v collection elements) varName placeholder =
     ForLoop v collection elements"
| "replaceLoopVariable_child (IfChild condition children elseChildren) varName placeholder =
     IfChild condition (map (\<lambda>e. replaceLoopVariable e varName placeholder) children) elseChildren"
| "replaceLoopVariable_child (ElemChild e) varName placeholder =
     ElemChild (replaceLoopVariable e varName placeholder)"

text \<open>The listener of one handler. \<^verbatim>\<open>h.event.replace('on', '').toLowerCase()\<close> is the
  event name.\<close>

definition handlerJS :: "string list \<Rightarrow> string \<Rightarrow> handler \<Rightarrow> string" where
  \<open>handlerJS pageNames elId h =
     (let eventName = toLowerCase (replaceFirst ''on'' '''' (event h));
          acts = concat (map (\<lambda>a. actionToJS pageNames a elId) (actions h));
          isAsync = str_includes acts ''await''
      in if eventName = ''drop'' then
       ''\<newline>''
       @ ''              el.addEventListener('dragover', function(e) {\<newline>''
       @ ''                e.preventDefault();\<newline>''
       @ ''                e.dataTransfer.dropEffect = 'move';\<newline>''
       @ ''              });\<newline>''
       @ ''              el.addEventListener(''
       @ [squote]
       @ eventName
       @ [squote]
       @ '', ''
       @ (if isAsync then ''async'' else '''')
       @ '' function(e) {\<newline>''
       @ ''                e.preventDefault();\<newline>''
       @ ''                ''
       @ acts
       @ ''\<newline>''
       @ ''              });''
         else if isAsync then
       ''el.addEventListener(''
       @ [squote]
       @ eventName
       @ [squote]
       @ '', async function() { ''
       @ acts
       @ '' });''
         else
       ''el.addEventListener(''
       @ [squote]
       @ eventName
       @ [squote]
       @ '', function() { ''
       @ acts
       @ '' });'')\<close>

text \<open>The script that follows an element with handlers, a registry name or the drag
  flag. \<open>varName\<close> is \<^verbatim>\<open>elementVarName\<close>; \<^verbatim>\<open>null\<close> and the empty string are falsy.\<close>

definition truthyName :: "string option \<Rightarrow> bool" where
  "truthyName v = (case v of None \<Rightarrow> False | Some s \<Rightarrow> s \<noteq> [])"

definition handlerCode :: "string list \<Rightarrow> string \<Rightarrow> string option \<Rightarrow> bool \<Rightarrow> handler list \<Rightarrow> string" where
  \<open>handlerCode pageNames elId varName drag handlers =
       ''\<newline>''
       @ ''        (function() {\<newline>''
       @ ''          const el = document.getElementById(''
       @ [squote]
       @ elId
       @ [squote]
       @ '');\<newline>''
       @ ''          if (!el) return;\<newline>''
       @ ''          ''
       @ (if truthyName varName then ''window.psl_elements.''
            @ the varName
            @ '' = el;''
          else '''')
       @ ''\<newline>''
       @ ''          \<newline>''
       @ ''          ''
       @ (if drag then ''\<newline>''
            @ ''          el.addEventListener('dragstart', function(e) {\<newline>''
            @ ''            e.dataTransfer.effectAllowed = 'move';\<newline>''
            @ ''            e.dataTransfer.setData('text/html', this.innerHTML);\<newline>''
            @ ''          });\<newline>''
            @ ''          ''
          else '''')
       @ ''\<newline>''
       @ ''          \<newline>''
       @ ''          ''
       @ join ''\<newline>'' (map (handlerJS pageNames elId) handlers)
       @ ''\<newline>''
       @ ''        })();\<newline>''
       @ ''      ''\<close>

text \<open>The markup and script of an \<^verbatim>\<open>if\<close> child, from the two block identifiers, the
  condition and the markup of the branches.\<close>

definition ifChildHtml :: "string \<Rightarrow> string option \<Rightarrow> string \<Rightarrow> string \<Rightarrow> string \<Rightarrow> string" where
  \<open>ifChildHtml ifBlockId elseBlockId condJS ifChildrenHTML elseChildrenHTML =
       ''<div id="''
       @ ifBlockId
       @ ''" class="psl-if-block" style="display: none; margin: 0;">\<newline>''
       @ ifChildrenHTML
       @ ''\<newline>''
       @ ''</div>''
       @ (case elseBlockId of None \<Rightarrow> ''''
          | Some elseId \<Rightarrow> ''<div id="''
              @ elseId
              @ ''" class="psl-else-block" style="display: none; margin: 0;">\<newline>''
              @ elseChildrenHTML
              @ ''\<newline>''
              @ ''</div>'')
       @ ''<script>''
       @ ''\<newline>''
       @ ''            (function() {\<newline>''
       @ ''              const ifEl = document.getElementById(''
       @ [squote]
       @ ifBlockId
       @ [squote]
       @ '');\<newline>''
       @ ''              ''
       @ (case elseBlockId of None \<Rightarrow> ''''
          | Some elseId \<Rightarrow> ''const elseEl = document.getElementById(''
              @ [squote]
              @ elseId
              @ [squote]
              @ '');'')
       @ ''\<newline>''
       @ ''              \<newline>''
       @ ''              function updateConditionalDisplay() {\<newline>''
       @ ''                  if (''
       @ condJS
       @ '') {\<newline>''
       @ ''                      if (ifEl) ifEl.style.display = 'block';\<newline>''
       @ ''                      ''
       @ (case elseBlockId of None \<Rightarrow> ''''
          | Some elseId \<Rightarrow> ''if (elseEl) elseEl.style.display = 'none';'')
       @ ''\<newline>''
       @ ''                  } else {\<newline>''
       @ ''                      if (ifEl) ifEl.style.display = 'none';\<newline>''
       @ ''                      ''
       @ (case elseBlockId of None \<Rightarrow> ''''
          | Some elseId \<Rightarrow> ''if (elseEl) elseEl.style.display = 'block';'')
       @ ''\<newline>''
       @ ''                  }\<newline>''
       @ ''              }\<newline>''
       @ ''              updateConditionalDisplay();\<newline>''
       @ ''            })();\<newline>''
       @ ''          ''
       @ ''</script>''\<close>

text \<open>The markup of a loop, from its container identifier, the collection and the
  markup of its template. In the template a backslash is put before every backslash,
  backquote and dollar sign.\<close>

definition escapeTemplate :: "string \<Rightarrow> string" where
  "escapeTemplate s =
     concat (map (\<lambda>c. if c = bslash \<or> c = CHR 0x60 \<or> c = CHR ''$'' then [bslash, c] else [c]) s)"

definition forLoopHtml :: "string \<Rightarrow> string \<Rightarrow> string \<Rightarrow> string" where
  \<open>forLoopHtml containerId collectionJS templateHTML =
       ''\<newline>''
       @ ''      <div id="''
       @ containerId
       @ ''" class="psl-for-loop"></div>\<newline>''
       @ ''      <script>\<newline>''
       @ ''        (function() {\<newline>''
       @ ''          const container = document.getElementById(''
       @ [squote]
       @ containerId
       @ [squote]
       @ '');\<newline>''
       @ ''          const collection = ''
       @ collectionJS
       @ '';\<newline>''
       @ ''          const templateHTML = `''
       @ escapeTemplate templateHTML
       @ ''`;\<newline>''
       @ ''          \<newline>''
       @ ''          if (Array.isArray(collection)) {\<newline>''
       @ ''            collection.forEach(function(loopItem) {\<newline>''
       @ ''              let html = templateHTML.replace(/__LOOP_VAR__/g, loopItem);\<newline>''
       @ ''              container.insertAdjacentHTML('beforeend', html);\<newline>''
       @ ''            });\<newline>''
       @ ''          } else if (typeof collection === 'object') {\<newline>''
       @ ''            Object.values(collection).forEach(function(loopItem) {\<newline>''
       @ ''              let html = templateHTML.replace(/__LOOP_VAR__/g, loopItem);\<newline>''
       @ ''              container.insertAdjacentHTML('beforeend', html);\<newline>''
       @ ''            });\<newline>''
       @ ''          }\<newline>''
       @ ''        })();\<newline>''
       @ ''      </script>\<newline>''
       @ ''    ''\<close>

text \<open>The markup of an element, from its identifier and the markup of its children.
  \<^verbatim>\<open>el.props.lazy\<close> and \<^verbatim>\<open>el.props.text\<close> are looked up by key.\<close>

definition elementHtml ::
  "string list \<Rightarrow> string \<Rightarrow> string \<Rightarrow> string \<Rightarrow> (string \<times> expr) list \<Rightarrow> handler list \<Rightarrow> string \<Rightarrow> string"
where
  "elementHtml pageNames pagePadding elId name props handlers childrenHtml =
     (let tag = getElementTag name;
          p = paddingsOf pagePadding;
          a = foldl alignStep alignInit props;
          st = foldl (propStep (map_of props ''lazy'' \<noteq> None) a p)
                 \<lparr>html = wrapperOpen a @ ''<'' @ tag @ '' id='' @ [dquote] @ elId @ [dquote],
                  styles = [], elementVarName = None, dragData = False\<rparr> props;
          html1 = html st
                  @ (if length (styles st) > 0
                     then '' style='' @ [dquote] @ join ''; '' (styles st) @ [dquote] else '''')
                  @ ''>'';
          html2 = html1
                  @ (case map_of props ''text'' of
                       None \<Rightarrow> ''''
                     | Some t \<Rightarrow>
                         if tag \<noteq> ''img'' then interpolateTemplateString (valueToString t) else '''');
          html3 = html2 @ childrenHtml @ ''</'' @ tag @ ''>'' @ wrapperClose a
      in if length handlers > 0 \<or> truthyName (elementVarName st) \<or> dragData st
         then html3 @ ''<script>''
              @ handlerCode pageNames elId (elementVarName st) (dragData st) handlers @ ''</script>''
         else html3)"

subsection \<open>The traversal\<close>

text \<open>A measure of the trees for the termination of the traversal; the copy made for a
  loop has the measure of the original.\<close>

fun esize :: "element \<Rightarrow> nat" and csize :: "child \<Rightarrow> nat" where
  "esize (Element name props children handlers) = 2 + sum_list (map csize children)"
| "esize (ForLoop v collection elements) = 2 + sum_list (map esize elements)"
| "csize (IfChild condition children elseChildren) =
     2 + sum_list (map esize children)
       + (case elseChildren of None \<Rightarrow> 0 | Some es \<Rightarrow> sum_list (map esize es))"
| "csize (ElemChild e) = 1 + esize e"

lemma esize_pos [simp]: "0 < esize e"
  by (cases e) simp_all

lemma esize_replaceLoopVariable:
  "esize (replaceLoopVariable e v ph) = esize e"
  "csize (replaceLoopVariable_child c v ph) = csize c"
proof (induction e v ph and c v ph rule: replaceLoopVariable_replaceLoopVariable_child.induct)
  case (1 name props children handlers varName placeholder)
  then have "sum_list (map (\<lambda>c. csize (replaceLoopVariable_child c varName placeholder)) children)
             = sum_list (map csize children)"
    by (intro arg_cong [where f = sum_list] map_cong) simp_all
  then show ?case by (simp add: comp_def)
next
  case (2 v collection elements varName placeholder)
  show ?case by simp
next
  case (3 condition children elseChildren varName placeholder)
  then have "sum_list (map (\<lambda>e. esize (replaceLoopVariable e varName placeholder)) children)
             = sum_list (map esize children)"
    by (intro arg_cong [where f = sum_list] map_cong) simp_all
  then show ?case by (simp add: comp_def)
next
  case (4 e varName placeholder)
  then show ?case by simp
qed

text \<open>
  \<^verbatim>\<open>generateElement\<close>, \<^verbatim>\<open>generateForLoop\<close> (its first equation) and the loop over the
  children of an element. The counter \<^verbatim>\<open>this.elementId\<close> is passed in and returned;
  \<^verbatim>\<open>pageNames\<close> are the keys of \<^verbatim>\<open>this.ast.pages\<close>, which the actions look up. The
  parameter \<^verbatim>\<open>pageName\<close> of the source is only passed on and is left out.
  \<open>generateElements\<close> is \<^verbatim>\<open>list.map(e => this.generateElement(e, ...))\<close>.
\<close>

function generateElement :: "string list \<Rightarrow> string \<Rightarrow> nat \<Rightarrow> element \<Rightarrow> string \<times> nat"
  and generateElements :: "string list \<Rightarrow> string \<Rightarrow> nat \<Rightarrow> element list \<Rightarrow> string list \<times> nat"
  and generateChildren :: "string list \<Rightarrow> string \<Rightarrow> nat \<Rightarrow> child list \<Rightarrow> string \<times> nat"
where
  "generateElement pageNames pagePadding n (ForLoop varName collection elements) =
     (case generateElements pageNames pagePadding (Suc n)
             (map (\<lambda>e. replaceLoopVariable e varName ''__LOOP_VAR__'') elements) of
        (htmls, n') \<Rightarrow>
          (forLoopHtml (''for_loop_'' @ showNat n) (valueToJSString collection) (concat htmls), n'))"
| "generateElement pageNames pagePadding n (Element name props children handlers) =
     (case generateChildren pageNames pagePadding (Suc n) children of
        (childrenHtml, n') \<Rightarrow>
          (elementHtml pageNames pagePadding (''el_'' @ showNat n) name props handlers childrenHtml,
           n'))"
| "generateElements pageNames pagePadding n [] = ([], n)"
| "generateElements pageNames pagePadding n (e # es) =
     (case generateElement pageNames pagePadding n e of
        (h, n1) \<Rightarrow>
          (case generateElements pageNames pagePadding n1 es of
             (hs, n2) \<Rightarrow> (h # hs, n2)))"
| "generateChildren pageNames pagePadding n [] = ([], n)"
| "generateChildren pageNames pagePadding n (IfChild condition children None # cs) =
     (case generateElements pageNames pagePadding (Suc n) children of
        (ifHtmls, n1) \<Rightarrow>
          (case generateChildren pageNames pagePadding n1 cs of
             (rest, n2) \<Rightarrow>
               (ifChildHtml (''if_block_'' @ showNat n) None (valueToJSString condition)
                  (concat ifHtmls) [] @ rest, n2)))"
| "generateChildren pageNames pagePadding n (IfChild condition children (Some elseChildren) # cs) =
     (if length elseChildren > 0
      then (case generateElements pageNames pagePadding (Suc (Suc n)) children of
              (ifHtmls, n1) \<Rightarrow>
                (case generateElements pageNames pagePadding n1 elseChildren of
                   (elseHtmls, n2) \<Rightarrow>
                     (case generateChildren pageNames pagePadding n2 cs of
                        (rest, n3) \<Rightarrow>
                          (ifChildHtml (''if_block_'' @ showNat n)
                             (Some (''else_block_'' @ showNat (Suc n))) (valueToJSString condition)
                             (concat ifHtmls) (concat elseHtmls) @ rest, n3))))
      else (case generateElements pageNames pagePadding (Suc n) children of
              (ifHtmls, n1) \<Rightarrow>
                (case generateChildren pageNames pagePadding n1 cs of
                   (rest, n2) \<Rightarrow>
                     (ifChildHtml (''if_block_'' @ showNat n) None (valueToJSString condition)
                        (concat ifHtmls) [] @ rest, n2))))"
| "generateChildren pageNames pagePadding n (ElemChild e # cs) =
     (case generateElement pageNames pagePadding n e of
        (h, n1) \<Rightarrow>
          (case generateChildren pageNames pagePadding n1 cs of
             (rest, n2) \<Rightarrow> (h @ rest, n2)))"
  by pat_completeness auto
termination
  by (relation "measure (\<lambda>x. case x of
          Inl (_, _, _, e) \<Rightarrow> esize e
        | Inr (Inl (_, _, _, es)) \<Rightarrow> 1 + sum_list (map esize es)
        | Inr (Inr (_, _, _, cs)) \<Rightarrow> 1 + sum_list (map csize cs))")
     (auto simp: esize_replaceLoopVariable comp_def)


section \<open>PSLCompiler: the program and the document\<close>

text \<open>
  The statements of a function body or of the top level: \<^verbatim>\<open>assignment\<close> (varName,
  value), \<^verbatim>\<open>functionCall\<close> (name, args), \<^verbatim>\<open>if\<close> (condition, body, elseBody) and \<^verbatim>\<open>for\<close>
  (varName, collection, body).
\<close>

datatype stmt =
    AssignmentS string expr
  | FunctionCallS string "expr list"
  | IfS expr "stmt list" "stmt list option"
  | ForS string expr "stmt list"

text \<open>A function: its parameters and its body.\<close>

datatype func = Func "string list" "stmt list"

text \<open>An entry of the \<^verbatim>\<open>elements\<close> of a page: an element (or loop), or a swipe handler
  (direction, actions).\<close>

datatype pageItem = PageElement element | SwipeHandler string "action list"

record page =
  elements :: "pageItem list"
  padding :: "expr option"
  bg :: "expr option"

datatype watcher = Watcher expr "action list"
datatype interval = Interval expr "action list"
datatype keyHandler = KeyHandler expr "action list"
datatype component = Component "string list" "element list"

text \<open>The program. A map of the source (\<^verbatim>\<open>metadata\<close>, \<^verbatim>\<open>pages\<close>, ...) is the list of its
  entries in the order \<^verbatim>\<open>Object.entries\<close> gives them, which for keys that are
  identifiers is the order of first insertion; its keys are distinct. The fields
  \<open>functionDecls\<close> and \<open>importList\<close> are \<^verbatim>\<open>functions\<close> and \<^verbatim>\<open>imports\<close> of the source.\<close>

record program =
  metadata :: "(string \<times> expr) list"
  pages :: "(string \<times> page) list"
  functionDecls :: "(string \<times> func) list"
  globalVariables :: "(string \<times> expr) list"
  statements :: "stmt list"
  keyHandlers :: "keyHandler list"
  components :: "(string \<times> component) list"
  mediaQueries :: "(string \<times> (string \<times> expr) list) list"
  watchers :: "watcher list"
  intervals :: "interval list"
  importList :: "expr list"

text \<open>The compiler object: \<^verbatim>\<open>this.ast\<close> and the counter \<^verbatim>\<open>this.elementId\<close>.\<close>

record compiler =
  ast :: program
  elementId :: nat

text \<open>\<^verbatim>\<open>constructor(ast)\<close>\<close>

definition PSLCompiler :: "program \<Rightarrow> compiler" where
  "PSLCompiler a = \<lparr>ast = a, elementId = 0\<rparr>"



subsection \<open>Statements\<close>


subsection \<open>\<^verbatim>\<open>generateCSS\<close>\<close>







subsection \<open>\<^verbatim>\<open>generateJavaScript\<close>\<close>












subsection \<open>\<^verbatim>\<open>generatePages\<close>\<close>

definition generateSwipeHandler :: "string list \<Rightarrow> string \<Rightarrow> action list \<Rightarrow> string" where
  \<open>generateSwipeHandler pageNames direction as =
     (let acts = concat (map (\<lambda>a. actionToJS pageNames a ''global'') as)
      in
       ''<script>\<newline>''
       @ ''      window.addEventListener('psl-swipe-''
       @ direction
       @ [squote]
       @ '', function() {\<newline>''
       @ ''        ''
       @ acts
       @ ''\<newline>''
       @ ''      });\<newline>''
       @ ''    </script>'')\<close>

text \<open>\<^verbatim>\<open>page.elements.map(...)\<close>: the markup of the entries of a page, the counter
  passed from one to the next.\<close>

fun generatePageItems :: "string list \<Rightarrow> string \<Rightarrow> nat \<Rightarrow> pageItem list \<Rightarrow> string list \<times> nat" where
  "generatePageItems pageNames pagePadding n [] = ([], n)"
| "generatePageItems pageNames pagePadding n (SwipeHandler direction as # items) =
     (case generatePageItems pageNames pagePadding n items of
        (hs, n') \<Rightarrow> (generateSwipeHandler pageNames direction as # hs, n'))"
| "generatePageItems pageNames pagePadding n (PageElement e # items) =
     (case generateElement pageNames pagePadding n e of
        (h, n1) \<Rightarrow>
          (case generatePageItems pageNames pagePadding n1 items of
             (hs, n2) \<Rightarrow> (h # hs, n2)))"

text \<open>The padding and the background of a page, resolved once.\<close>

definition pagePaddingOf :: "page \<Rightarrow> string" where
  "pagePaddingOf pg =
     (case padding pg of None \<Rightarrow> ''20px'' | Some v \<Rightarrow> getStyleValue ''padding'' (valueToString v))"

definition pageBgOf :: "page \<Rightarrow> string" where
  "pageBgOf pg =
     (case bg pg of None \<Rightarrow> '''' | Some v \<Rightarrow> ''background-color: '' @ valueToString v @ '';'')"

text \<open>The opening tag of the container of a page; \<open>active\<close> is
  \<^verbatim>\<open>pageName === pageNames[0]\<close>.\<close>

definition pageOpen :: "string \<Rightarrow> string \<Rightarrow> bool \<Rightarrow> string \<Rightarrow> string" where
  \<open>pageOpen pageName pagePadding active pageBg =
       ''<div data-page="''
       @ pageName
       @ ''" data-padding="''
       @ pagePadding
       @ ''" class="page ''
       @ (if active then ''active'' else '''')
       @ ''" style="padding: ''
       @ pagePadding
       @ ''; ''
       @ pageBg
       @ ''">''\<close>

text \<open>One turn of the loop of \<^verbatim>\<open>generatePages\<close>: the markup of one page; \<open>first\<close> is
  \<^verbatim>\<open>pageNames[0]\<close>.\<close>

definition generatePage :: "string list \<Rightarrow> string \<Rightarrow> nat \<Rightarrow> string \<times> page \<Rightarrow> string \<times> nat" where
  "generatePage pageNames first n np =
     (case np of (pageName, pg) \<Rightarrow>
        (let pagePadding = pagePaddingOf pg;
             pageBg = pageBgOf pg
         in case generatePageItems pageNames pagePadding n (elements pg) of
              (hs, n') \<Rightarrow>
                (pageOpen pageName pagePadding (pageName = first) pageBg
                 @ join ''\<newline>'' hs @ ''</div>'', n')))"

fun generatePages_loop ::
  "string list \<Rightarrow> string \<Rightarrow> nat \<Rightarrow> (string \<times> page) list \<Rightarrow> string list \<times> nat" where
  "generatePages_loop pageNames first n [] = ([], n)"
| "generatePages_loop pageNames first n (np # nps) =
     (case generatePage pageNames first n np of
        (h, n1) \<Rightarrow>
          (case generatePages_loop pageNames first n1 nps of
             (hs, n2) \<Rightarrow> (h # hs, n2)))"

text \<open>The markup of the pages, one piece per page, and the compiler with its counter
  moved. With no page the loop does not run and \<^verbatim>\<open>pageNames[0]\<close> is not read.\<close>

definition pageChunks :: "compiler \<Rightarrow> string list \<times> nat" where
  "pageChunks c =
     (let pageNames = map fst (pages (ast c))
      in generatePages_loop pageNames (case pageNames of [] \<Rightarrow> [] | f # _ \<Rightarrow> f)
           (elementId c) (pages (ast c)))"

definition generatePages :: "compiler \<Rightarrow> string \<times> compiler" where
  "generatePages c =
     (case pageChunks c of (hs, n) \<Rightarrow> (concat hs, c\<lparr>elementId := n\<rparr>))"

subsection \<open>\<^verbatim>\<open>generateHTML\<close> and \<^verbatim>\<open>compile\<close>\<close>











section \<open>Definitions used to state the properties of the compiler\<close>

text \<open>The CSS property that each sizing key of the source language sets.\<close>

definition cssProperty :: "string \<Rightarrow> string" where
  "cssProperty key =
     (if key = ''size'' then ''font-size''
      else if key = ''radius'' then ''border-radius''
      else if key = ''border-size'' then ''border-width''
      else key)"












section \<open>Properties of the tokenizer\<close>

lemma match_hd: "match t (a # as) \<Longrightarrow> pos t < length (input t) \<and> input t ! pos t = a"
proof -
  assume "match t (a # as)"
  then have tk: "take (Suc (length as)) (drop (pos t) (input t)) = a # as" by (simp add: match_def)
  then have "drop (pos t) (input t) \<noteq> []" by auto
  then have len: "pos t < length (input t)" by simp
  from tk have "hd (take (Suc (length as)) (drop (pos t) (input t))) = a" by simp
  with len show ?thesis by (simp add: hd_drop_conv_nth)
qed

lemma tokenize_step_unrecognized:
  assumes "pos t < length (input t)" "unrecognized (input t ! pos t)"
  shows "tokenize_step t = t\<lparr>pos := Suc (pos t)\<rparr>"
proof -
  from assms(2) have ns: "input t ! pos t \<notin> set symbolChars" by (simp add: unrecognized_def)
  have "\<not> match t ''//''" "\<not> match t ''/*''" "\<not> match t ''==''" "\<not> match t ''!=''"
    "\<not> match t ''>=''" "\<not> match t ''<=''"
    using ns match_hd [of t] by (auto simp: symbolChars_def)
  with assms show ?thesis
    by (simp add: tokenize_step_def unrecognized_def Let_def)
qed

lemma skipWhitespace_loop_nonspace:
  "p < length inp \<Longrightarrow> \<not> isSpace (inp ! p) \<Longrightarrow> skipWhitespace_loop inp p = p"
  by (subst skipWhitespace_loop.simps) simp

lemma tokenize_loop_unrecognized:
  assumes "pos t < length (input t)" "unrecognized (input t ! pos t)"
  shows "tokenize_loop t = tokenize_loop (t\<lparr>pos := Suc (pos t)\<rparr>)"
proof -
  from assms have "skipWhitespace t = t"
    by (simp add: skipWhitespace_def skipWhitespace_loop_nonspace unrecognized_def)
  with assms show ?thesis
    by (subst tokenize_loop.simps) (simp add: tokenize_step_unrecognized Let_def)
qed

text \<open>
  Claim C1. \<^verbatim>\<open>tokenize\<close> is a total function (its loop is defined with a proved
  termination measure, the distance of the cursor from the end of the input, and no
  operation of it can throw); the token list it returns is never empty and its last
  element is the \<^verbatim>\<open>EOF\<close> token. A character that no branch recognises is dropped:
  the loop goes on from the next position with the same tokens.
\<close>

theorem tokenize_total_ends_with_EOF:
  "tokenize inp \<noteq> [] \<and> last (tokenize inp) = mkToken EOF '''' \<and>
   (\<forall>t. pos t < length (input t) \<and> unrecognized (input t ! pos t) \<longrightarrow>
        tokenize_loop t = tokenize_loop (t\<lparr>pos := Suc (pos t)\<rparr>))"
  using tokenize_loop_unrecognized by (simp add: tokenize_def)

theorem tokenize_total_ends_with_EOF_witness:
  "tokenize ''a~b'' \<noteq> [] \<and> last (tokenize ''a~b'') = mkToken EOF '''' \<and>
   unrecognized (CHR ''~'') \<and>
   tokenize_loop \<lparr>input = ''a~b'', pos = 1, tokens = [mkToken IDENTIFIER ''a'']\<rparr>
     = tokenize_loop \<lparr>input = ''a~b'', pos = 2, tokens = [mkToken IDENTIFIER ''a'']\<rparr> \<and>
   tokenize ''a~b'' = [mkToken IDENTIFIER ''a'', mkToken IDENTIFIER ''b'', mkToken EOF '''']"
proof -
  have u: "unrecognized (CHR ''~'')" by code_simp
  have e: "tokenize ''a~b'' = [mkToken IDENTIFIER ''a'', mkToken IDENTIFIER ''b'', mkToken EOF '''']"
    by code_simp
  let ?t = "\<lparr>input = ''a~b'', pos = 1, tokens = [mkToken IDENTIFIER ''a'']\<rparr>"
  from tokenize_total_ends_with_EOF [of "''a~b''"]
  have "pos ?t < length (input ?t) \<and> unrecognized (input ?t ! pos ?t) \<longrightarrow>
        tokenize_loop ?t = tokenize_loop (?t\<lparr>pos := Suc (pos ?t)\<rparr>)" by blast
  with u have "tokenize_loop ?t = tokenize_loop (?t\<lparr>pos := Suc (pos ?t)\<rparr>)" by simp
  with u e tokenize_total_ends_with_EOF [of "''a~b''"] show ?thesis
    by (simp add: numeral_2_eq_2)
qed

lemma readWhile_run:
  assumes "\<forall>c\<in>set run. P c" "\<not> startsWithClass P rest"
  shows "readWhile P (pre @ run @ rest) (length pre) v = (v @ run, length pre + length run)"
  using assms
proof (induction run arbitrary: pre v)
  case Nil
  then show ?case
    by (subst readWhile.simps) (auto simp: startsWithClass_def nth_append split: list.splits)
next
  case (Cons c run)
  have "readWhile P ((pre @ [c]) @ run @ rest) (length (pre @ [c])) (v @ [c])
        = ((v @ [c]) @ run, length (pre @ [c]) + length run)"
    using Cons.prems by (intro Cons.IH) simp_all
  moreover have "readWhile P (pre @ (c # run) @ rest) (length pre) v
        = readWhile P (pre @ (c # run) @ rest) (Suc (length pre)) (v @ [c])"
    using Cons.prems by (subst readWhile.simps) (simp add: nth_append)
  ultimately show ?case by simp
qed

text \<open>
  Claim C3. \<^verbatim>\<open>readNumber\<close> reads the longest run \<open>num\<close> of digits and decimal points,
  then the longest run \<open>unit\<close> of letters and percent signs. If that run, in lower case,
  is one of the listed unit suffixes, the token is \<open>num @ unit\<close> and the cursor is behind
  the suffix; otherwise the token is \<open>num\<close> alone and the cursor is back at the start of
  the run, so the run is not consumed. \<^verbatim>\<open>10px\<close> lexes as one NUMBER token, \<^verbatim>\<open>10xyz\<close> as
  the NUMBER \<^verbatim>\<open>10\<close> and the IDENTIFIER \<^verbatim>\<open>xyz\<close>.
\<close>

theorem readNumber_unit_suffix:
  assumes "input t = pre @ num @ unit @ rest" and "pos t = length pre"
    and "\<forall>c\<in>set num. isNumChar c" and "\<not> startsWithClass isNumChar (unit @ rest)"
    and "\<forall>c\<in>set unit. isUnitChar c" and "\<not> startsWithClass isUnitChar rest"
  shows "readNumber t =
           (if toLowerCase unit \<in> set validUnits
            then pushToken (t\<lparr>pos := length pre + length num + length unit\<rparr>) NUMBER (num @ unit)
            else pushToken (t\<lparr>pos := length pre + length num\<rparr>) NUMBER num)
         \<and> tokenize ''10px'' = [mkToken NUMBER ''10px'', mkToken EOF '''']
         \<and> tokenize ''10xyz'' = [mkToken NUMBER ''10'', mkToken IDENTIFIER ''xyz'', mkToken EOF '''']"
proof -
  have r1: "readWhile isNumChar (input t) (pos t) [] = (num, length pre + length num)"
    using readWhile_run [of num isNumChar "unit @ rest" pre "[]"] assms by simp
  have "readWhile isUnitChar ((pre @ num) @ unit @ rest) (length (pre @ num)) []
          = ([] @ unit, length (pre @ num) + length unit)"
    using assms by (intro readWhile_run) simp_all
  then have r2: "readWhile isUnitChar (input t) (length pre + length num) []
          = (unit, length pre + length num + length unit)"
    using assms by simp
  have pc: "unit = ''%'' \<Longrightarrow> toLowerCase unit \<in> set validUnits"
    by (simp add: toLowerCase_def lowerChar_def validUnits_def)
  have a: "readNumber t =
           (if toLowerCase unit \<in> set validUnits
            then pushToken (t\<lparr>pos := length pre + length num + length unit\<rparr>) NUMBER (num @ unit)
            else pushToken (t\<lparr>pos := length pre + length num\<rparr>) NUMBER num)"
    using pc by (auto simp add: readNumber_def r1 r2)
  have b: "tokenize ''10px'' = [mkToken NUMBER ''10px'', mkToken EOF '''']" by code_simp
  have c: "tokenize ''10xyz'' = [mkToken NUMBER ''10'', mkToken IDENTIFIER ''xyz'', mkToken EOF '''']"
    by code_simp
  from a b c show ?thesis by simp
qed

theorem readNumber_unit_suffix_witness:
  "readNumber \<lparr>input = ''w 1.5EM;'', pos = 2, tokens = []\<rparr>
     = \<lparr>input = ''w 1.5EM;'', pos = 7, tokens = [mkToken NUMBER ''1.5EM'']\<rparr>
   \<and> readNumber \<lparr>input = ''w 10pxy;'', pos = 2, tokens = []\<rparr>
     = \<lparr>input = ''w 10pxy;'', pos = 4, tokens = [mkToken NUMBER ''10'']\<rparr>"
proof -
  let ?t = "\<lparr>input = ''w 1.5EM;'', pos = 2, tokens = []\<rparr>"
  let ?u = "\<lparr>input = ''w 10pxy;'', pos = 2, tokens = []\<rparr>"
  have cls: "\<forall>c\<in>set ''1.5''. isNumChar c" "\<forall>c\<in>set ''10''. isNumChar c"
    "\<forall>c\<in>set ''EM''. isUnitChar c" "\<forall>c\<in>set ''pxy''. isUnitChar c"
    "\<not> startsWithClass isNumChar (''EM'' @ '';'')" "\<not> startsWithClass isNumChar (''pxy'' @ '';'')"
    "\<not> startsWithClass isUnitChar '';''"
    by code_simp+
  have low: "toLowerCase ''EM'' \<in> set validUnits" "toLowerCase ''pxy'' \<notin> set validUnits"
    by code_simp+
  have "readNumber ?t = pushToken (?t\<lparr>pos := length ''w '' + length ''1.5'' + length ''EM''\<rparr>) NUMBER (''1.5'' @ ''EM'')"
    using readNumber_unit_suffix [of ?t "''w ''" "''1.5''" "''EM''" "'';''"] cls low
    by simp
  moreover have "readNumber ?u = pushToken (?u\<lparr>pos := length ''w '' + length ''10''\<rparr>) NUMBER ''10''"
    using readNumber_unit_suffix [of ?u "''w ''" "''10''" "''pxy''" "'';''"] cls low
    by simp
  ultimately show ?thesis by (simp add: pushToken_def)
qed

text \<open>
  Claim C4. The claim says that an unterminated block comment consumes the input to its
  end, so that only the end-of-input token follows. The loop of \<^verbatim>\<open>skipBlockComment\<close>
  stops one character before the end (its guard leaves room for the two-character
  look-ahead), and the last character of the input is tokenized: the input \<^verbatim>\<open>/* x\<close>
  yields the identifier \<^verbatim>\<open>x\<close> before the end-of-input token.
\<close>

theorem unterminated_block_comment_leaves_last_char:
  "tokenize ''/* x'' = [mkToken IDENTIFIER ''x'', mkToken EOF '''']"
  by code_simp

section \<open>Properties of the parser\<close>

lemma peek_advance: "peek (advance ps) = peekAhead ps 1"
  by (simp add: peek_def peekAhead_def advance_def)

lemma peek_advance2: "peek (advance (advance ps)) = peekAhead ps 2"
  by (simp add: peek_def peekAhead_def advance_def numeral_2_eq_2)

text \<open>
  Claim C8. \<^verbatim>\<open>expect(type, value)\<close> throws exactly when the type of the current token
  differs from the required type or, when a value is required, the value of the current
  token differs from it. The error message names the expected type (and value), the type
  and value of the token found, and the position. On a match the cursor moves one token
  on and the token is returned.
\<close>

theorem expect_raises_iff_mismatch:
  "expect ps ty None =
     (if tok_type (peek ps) \<noteq> ty
      then Inl (Error (''Expected '' @ typeName ty @ '', got '' @ typeName (tok_type (peek ps))
             @ '' ('' @ tok_value (peek ps) @ '') at position '' @ showNat (ppos ps)))
      else Inr (peek ps, ps\<lparr>ppos := Suc (ppos ps)\<rparr>))
   \<and> (s \<noteq> [] \<longrightarrow>
      expect ps ty (Some s) =
        (if tok_type (peek ps) \<noteq> ty \<or> tok_value (peek ps) \<noteq> s
         then Inl (Error (''Expected '' @ typeName ty @ '' ('' @ s @ '')'' @ '', got ''
                @ typeName (tok_type (peek ps)) @ '' ('' @ tok_value (peek ps)
                @ '') at position '' @ showNat (ppos ps)))
         else Inr (peek ps, ps\<lparr>ppos := Suc (ppos ps)\<rparr>)))"
  by (simp add: expect_def expectMessage_def advance_def Let_def)

theorem expect_raises_iff_mismatch_witness:
  "expect \<lparr>ptokens = [mkToken SYMBOL ''(''], ppos = 0\<rparr> SYMBOL (Some ''{'')
     = Inl (Error ''Expected SYMBOL ({), got SYMBOL (() at position 0'')
   \<and> expect \<lparr>ptokens = [mkToken SYMBOL ''(''], ppos = 0\<rparr> SYMBOL (Some ''('')
     = Inr (mkToken SYMBOL ''('', \<lparr>ptokens = [mkToken SYMBOL ''(''], ppos = 1\<rparr>)
   \<and> expect \<lparr>ptokens = [mkToken SYMBOL ''(''], ppos = 0\<rparr> IDENTIFIER None
     = Inl (Error ''Expected IDENTIFIER, got SYMBOL (() at position 0'')"
proof -
  let ?ps = "\<lparr>ptokens = [mkToken SYMBOL ''(''], ppos = 0\<rparr>"
  have sn: "showNat 0 = ''0''" by code_simp
  have a: "expect ?ps SYMBOL (Some ''{'') = Inl (Error ''Expected SYMBOL ({), got SYMBOL (() at position 0'')"
    using expect_raises_iff_mismatch [of ?ps SYMBOL "''{''"]
    by (simp add: peek_def sn mkToken_def)
  have b: "expect ?ps SYMBOL (Some ''('') = Inr (mkToken SYMBOL ''('', ?ps\<lparr>ppos := 1\<rparr>)"
    using expect_raises_iff_mismatch [of ?ps SYMBOL "''(''"]
    by (simp add: peek_def sn mkToken_def)
  have c: "expect ?ps IDENTIFIER None = Inl (Error ''Expected IDENTIFIER, got SYMBOL (() at position 0'')"
    using expect_raises_iff_mismatch [of ?ps IDENTIFIER "''x''"]
    by (simp add: peek_def sn mkToken_def)
  from a b c show ?thesis by simp
qed

text \<open>
  Claim C9, as stated, fails: \<^verbatim>\<open>parsePrimary\<close> tests for a following dot before it
  tests for a colour name, so the colour name \<^verbatim>\<open>red\<close> in \<^verbatim>\<open>red.text\<close> is parsed as a
  dotted reference, not as a string literal.
\<close>

theorem color_name_before_dot_is_dotted_reference:
  "tokenize ''red.text'' = [mkToken IDENTIFIER ''red'', mkToken SYMBOL ''.'',
                            mkToken IDENTIFIER ''text'', mkToken EOF '''']
   \<and> isColorName ''red''
   \<and> parsePrimary (parseExpression 0) 1 (PSLParser (tokenize ''red.text''))
       = Return (DotNotation ''red'' ''text'', \<lparr>ptokens = tokenize ''red.text'', ppos = 3\<rparr>)"
  by code_simp

text \<open>
  Claim C9, amended. At an identifier token (whose text is not \<^verbatim>\<open>[\<close>, and not \<^verbatim>\<open>{\<close>
  before another identifier), \<^verbatim>\<open>parsePrimary\<close> returns a boolean for \<^verbatim>\<open>true\<close> and
  \<^verbatim>\<open>false\<close>. Any other identifier followed by a dot is a dotted reference when an
  identifier follows the dot, and a required-token error otherwise, colour names and
  position keywords included. An identifier not followed by a dot is a string literal
  exactly when its text starts with \<^verbatim>\<open>#\<close> or is, in lower case, a listed colour name or
  position keyword; otherwise it is a variable reference.
\<close>

theorem parsePrimary_identifier:
  assumes "tok_type (peek ps) = IDENTIFIER" and "tok_value (peek ps) = v"
    and "v \<noteq> ''[''" and "v \<noteq> ''{'' \<or> tok_type (peekAhead ps 1) \<noteq> IDENTIFIER"
  shows "parsePrimary pe n ps =
     (if v = ''true'' \<or> v = ''false'' then Return (BooleanE (v = ''true''), advance ps)
      else if tok_value (peekAhead ps 1) = ''.''
        then (if tok_type (peekAhead ps 2) = IDENTIFIER
              then Return (DotNotation v (tok_value (peekAhead ps 2)), advance (advance (advance ps)))
              else Raise (Error (''Expected IDENTIFIER, got '' @ typeName (tok_type (peekAhead ps 2))
                     @ '' ('' @ tok_value (peekAhead ps 2) @ '') at position ''
                     @ showNat (ppos ps + 2))))
      else if startsWith v ''#'' \<or> isColorName v \<or> isPositionKeyword v
        then Return (StringE v, advance ps)
      else Return (VariableE v, advance ps))"
proof -
  have e: "expectR (advance (advance ps)) IDENTIFIER None =
     (if tok_type (peekAhead ps 2) = IDENTIFIER
      then Return (peekAhead ps 2, advance (advance (advance ps)))
      else Raise (Error (''Expected IDENTIFIER, got '' @ typeName (tok_type (peekAhead ps 2))
                     @ '' ('' @ tok_value (peekAhead ps 2) @ '') at position ''
                     @ showNat (ppos ps + 2))))"
    by (simp add: expectR_def expect_def expectMessage_def peek_advance2 Let_def)
       (simp add: advance_def)
  from assms have c: "(v = ''['') = False"
    "(v = ''{'' \<and> tok_type (peekAhead ps 1) = IDENTIFIER) = False"
    by auto
  have "parsePrimary pe n ps =
     (if v = ''true'' \<or> v = ''false'' then Return (BooleanE (v = ''true''), advance ps)
      else if tok_value (peek (advance ps)) = ''.''
        then bind (expectR (advance (advance ps)) IDENTIFIER None) (\<lambda>(property, ps2).
                            Return (DotNotation v (tok_value property), ps2))
      else if startsWith v ''#'' \<or> isColorName v \<or> isPositionKeyword v
        then Return (StringE v, advance ps)
      else Return (VariableE v, advance ps))"
    unfolding parsePrimary_def Let_def
    by (simp only: c assms(1) assms(2) if_False if_True tokType.simps simp_thms)
  then show ?thesis
    by (simp add: peek_advance e)
qed

theorem parsePrimary_identifier_witness:
  "parsePrimary (parseExpression 0) 1 (PSLParser (tokenize ''Blue;'')) =
     Return (StringE ''Blue'', \<lparr>ptokens = tokenize ''Blue;'', ppos = 1\<rparr>)
   \<and> parsePrimary (parseExpression 0) 1 (PSLParser (tokenize ''count;'')) =
     Return (VariableE ''count'', \<lparr>ptokens = tokenize ''count;'', ppos = 1\<rparr>)
   \<and> parsePrimary (parseExpression 0) 1 (PSLParser (tokenize ''box.text;'')) =
     Return (DotNotation ''box'' ''text'', \<lparr>ptokens = tokenize ''box.text;'', ppos = 3\<rparr>)"
proof -
  have t1: "tokenize ''Blue;'' = [mkToken IDENTIFIER ''Blue'', mkToken SYMBOL '';'', mkToken EOF '''']"
    and t2: "tokenize ''count;'' = [mkToken IDENTIFIER ''count'', mkToken SYMBOL '';'', mkToken EOF '''']"
    and t3: "tokenize ''box.text;'' = [mkToken IDENTIFIER ''box'', mkToken SYMBOL ''.'',
               mkToken IDENTIFIER ''text'', mkToken SYMBOL '';'', mkToken EOF '''']"
    by code_simp+
  have c: "isColorName ''Blue''" "\<not> isColorName ''count''" "\<not> isPositionKeyword ''count''"
    by code_simp+
  have a: "parsePrimary (parseExpression 0) 1 (PSLParser (tokenize ''Blue;'')) =
     Return (StringE ''Blue'', \<lparr>ptokens = tokenize ''Blue;'', ppos = 1\<rparr>)"
    using parsePrimary_identifier [of "PSLParser (tokenize ''Blue;'')" "''Blue''" "parseExpression 0" 1] c
    by (simp add: t1 PSLParser_def peek_def peekAhead_def mkToken_def advance_def startsWith_def)
  have b: "parsePrimary (parseExpression 0) 1 (PSLParser (tokenize ''count;'')) =
     Return (VariableE ''count'', \<lparr>ptokens = tokenize ''count;'', ppos = 1\<rparr>)"
    using parsePrimary_identifier [of "PSLParser (tokenize ''count;'')" "''count''" "parseExpression 0" 1] c
    by (simp add: t2 PSLParser_def peek_def peekAhead_def mkToken_def advance_def startsWith_def)
  have d: "parsePrimary (parseExpression 0) 1 (PSLParser (tokenize ''box.text;'')) =
     Return (DotNotation ''box'' ''text'', \<lparr>ptokens = tokenize ''box.text;'', ppos = 3\<rparr>)"
    using parsePrimary_identifier [of "PSLParser (tokenize ''box.text;'')" "''box''" "parseExpression 0" 1]
    by (simp add: t3 PSLParser_def peek_def peekAhead_def mkToken_def advance_def numeral_3_eq_3)
  from a b d show ?thesis by simp
qed

section \<open>Properties of the serialization of values and actions\<close>

lemma escapeQuotes_concat_map:
  "escapeQuotes s = concat (map (\<lambda>c. if c = dquote then [bslash, dquote] else [c]) s)"
  by (induction s) simp_all

lemma escapeQuotes_no_quote: "dquote \<notin> set s \<Longrightarrow> escapeQuotes s = s"
  by (induction s) auto

text \<open>
  Claim C10. The JavaScript text of a string expression is the string between two double
  quotes, with a backslash put before every double quote of the string and every other
  character copied as it is, backslashes and line feeds included. A string without a
  double quote is therefore emitted verbatim between the quotes.
\<close>

theorem valueToJSString_string_escapes_only_quotes:
  "valueToJSString (StringE s) =
     [dquote] @ concat (map (\<lambda>c. if c = dquote then [bslash, dquote] else [c]) s) @ [dquote]
   \<and> (dquote \<notin> set s \<longrightarrow> valueToJSString (StringE s) = [dquote] @ s @ [dquote])"
  by (simp add: escapeQuotes_concat_map [symmetric] escapeQuotes_no_quote)

theorem valueToJSString_string_escapes_only_quotes_witness:
  "valueToJSString (StringE [CHR ''a'', bslash, CHR ''n'', newline, CHR ''b''])
     = [dquote, CHR ''a'', bslash, CHR ''n'', newline, CHR ''b'', dquote]
   \<and> valueToJSString (StringE [CHR ''a'', dquote, bslash])
     = [dquote, CHR ''a'', bslash, dquote, bslash, dquote]"
proof -
  have "dquote \<notin> set [CHR ''a'', bslash, CHR ''n'', newline, CHR ''b'']" by simp
  with valueToJSString_string_escapes_only_quotes [of "[CHR ''a'', bslash, CHR ''n'', newline, CHR ''b'']"]
  have a: "valueToJSString (StringE [CHR ''a'', bslash, CHR ''n'', newline, CHR ''b''])
     = [dquote, CHR ''a'', bslash, CHR ''n'', newline, CHR ''b'', dquote]"
    by simp
  from valueToJSString_string_escapes_only_quotes [of "[CHR ''a'', dquote, bslash]"]
  have b: "valueToJSString (StringE [CHR ''a'', dquote, bslash])
     = [dquote, CHR ''a'', bslash, dquote, bslash, dquote]"
    by simp
  from a b show ?thesis by simp
qed



section \<open>Properties of the compiler\<close>

lemma lowerChar_fixed: "isSpace c \<or> isNumChar c \<Longrightarrow> lowerChar c = c"
  by (auto simp: isSpace_def isNumChar_def isDigit_def lowerChar_def)

lemma digit_not_space: "isDigit c \<Longrightarrow> \<not> isSpace c"
  by (auto simp: isDigit_def isSpace_def)

lemma numChar_not_space: "isNumChar c \<Longrightarrow> \<not> isSpace c"
  by (auto simp: isNumChar_def isDigit_def isSpace_def)

lemma dropWhile_all: "\<forall>x\<in>set xs. P x \<Longrightarrow> dropWhile P xs = []"
  by simp

lemma set_dropOptDot: "set (dropOptDot xs) \<subseteq> set xs"
  by (cases xs) (auto simp: dropOptDot_def)

lemma trim_id:
  assumes "s \<noteq> []" "\<not> isSpace (hd s)" "\<not> isSpace (last s)"
  shows "trim s = s"
proof -
  from assms have a: "dropWhile isSpace s = s" by (cases s) simp_all
  from assms have "rev s \<noteq> []" "\<not> isSpace (hd (rev s))" by (simp_all add: hd_rev)
  then have "dropWhile isSpace (rev s) = rev s" by (cases "rev s") simp_all
  with a show ?thesis by (simp add: trim_def)
qed

lemma unit_first_char:
  "u \<in> set cssUnits \<Longrightarrow> u \<noteq> [] \<and> \<not> isNumChar (hd u)"
  by (auto simp: cssUnits_def isNumChar_def isDigit_def)

lemma unitRegexAt_numeric:
  assumes "\<forall>c\<in>set s. isNumChar c"
  shows "\<not> unitRegexAt s"
proof
  assume m: "unitRegexAt s"
  define r where "r = dropWhile isDigit (dropOptDot (dropWhile isDigit s))"
  have "set (dropOptDot (dropWhile isDigit s)) \<subseteq> set s"
    using set_dropOptDot [of "dropWhile isDigit s"] set_dropWhileD [of _ isDigit s] by blast
  moreover have "set r \<subseteq> set (dropOptDot (dropWhile isDigit s))"
    unfolding r_def using set_dropWhileD [of _ isDigit "dropOptDot (dropWhile isDigit s)"] by blast
  ultimately have sub: "set r \<subseteq> set s" by blast
  from m obtain u where u: "u \<in> set cssUnits" "toLowerCase (take (length u) r) = u"
    by (auto simp: unitRegexAt_def r_def Let_def list_ex_iff split: list.splits)
  from unit_first_char [OF u(1)] have une: "u \<noteq> []" and uh: "\<not> isNumChar (hd u)" by simp_all
  from u(2) une have rne: "r \<noteq> []" by (auto simp: toLowerCase_def)
  then obtain a r' where r: "r = a # r'" by (cases r) auto
  with sub assms have na: "isNumChar a" by auto
  from une obtain b u' where ub: "u = b # u'" by (cases u) auto
  with u(2) r have "lowerChar a = b" by (simp add: toLowerCase_def)
  with na lowerChar_fixed [of a] have "a = b" by simp
  with na uh ub show False by simp
qed

lemma unitRegexTest_numeric: "\<forall>c\<in>set s. isNumChar c \<Longrightarrow> \<not> unitRegexTest s"
proof (induction s)
  case Nil
  then show ?case by simp
next
  case (Cons c s)
  then have "\<not> unitRegexAt (c # s)" by (intro unitRegexAt_numeric) simp
  with Cons show ?case by simp
qed

lemma plainNumberTest_digits:
  assumes "ds \<noteq> []" "\<forall>c\<in>set ds. isDigit c" "\<forall>c\<in>set fs. isDigit c"
  shows "plainNumberTest ds" and "plainNumberTest (ds @ ''.'' @ fs)"
proof -
  from assms obtain d ds' where ds: "ds = d # ds'" "isDigit d" by (cases ds) auto
  from assms have dw: "dropWhile isDigit ds = []" by simp
  have nd: "\<not> isDigit (CHR ''.'')" by (simp add: isDigit_def)
  from assms nd have dw2: "dropWhile isDigit (ds @ ''.'' @ fs) = ''.'' @ fs"
    by (simp add: dropWhile_append)
  have "plainNumberTest ds = (isDigit d \<and> list_all isDigit (dropOptDot (dropWhile isDigit ds)))"
    by (simp only: plainNumberTest_def ds(1) list.case)
  then show "plainNumberTest ds"
    by (simp only: dw ds(2)) (simp add: dropOptDot_def)
  have "plainNumberTest (ds @ ''.'' @ fs)
        = (isDigit d \<and> list_all isDigit (dropOptDot (dropWhile isDigit (ds @ ''.'' @ fs))))"
    by (simp add: plainNumberTest_def ds(1))
  then show "plainNumberTest (ds @ ''.'' @ fs)"
    using assms(3) by (simp only: dw2 ds(2)) (simp add: dropOptDot_def list_all_iff)
qed

lemma plainNumberTest_numeric:
  assumes "plainNumberTest s"
  shows "\<forall>c\<in>set s. isNumChar c"
proof -
  define r where "r = dropWhile isDigit s"
  have tk: "\<forall>c\<in>set (takeWhile isDigit s). isNumChar c"
    by (auto simp: isNumChar_def dest: set_takeWhileD)
  from assms have all: "list_all isDigit (dropOptDot r)"
    by (auto simp: plainNumberTest_def r_def split: list.splits)
  have "\<forall>c\<in>set r. isNumChar c"
  proof (cases r)
    case Nil
    then show ?thesis by simp
  next
    case (Cons a r')
    then show ?thesis
      using all by (auto simp: dropOptDot_def isNumChar_def list_all_iff split: if_splits)
  qed
  moreover have "set s = set (takeWhile isDigit s) \<union> set r"
    unfolding r_def by (metis set_append takeWhile_dropWhile_id)
  ultimately show ?thesis using tk by blast
qed

lemma parseFloat_digit: "isDigit d \<Longrightarrow> \<not> parseFloatIsNaN (d # s)"
  by (auto simp: parseFloatIsNaN_def Let_def isDigit_def isSpace_def)

lemma percent_not_numeric: "\<forall>c\<in>set s. isNumChar c \<Longrightarrow> CHR ''%'' \<notin> set s"
proof -
  have "\<not> isNumChar (CHR ''%'')" by (simp add: isNumChar_def isDigit_def)
  then show "\<forall>c\<in>set s. isNumChar c \<Longrightarrow> CHR ''%'' \<notin> set s" by blast
qed

lemma getStyleValue_numeral:
  assumes k: "key \<in> set sizingKeys" and s: "s = d # s'" "isDigit d" "\<forall>c\<in>set s. isNumChar c"
    "plainNumberTest s"
  shows "getStyleValue key s = s @ ''px''"
proof -
  from s have "last s \<in> set s" by simp
  with s have "\<not> isSpace (last s)" using numChar_not_space by blast
  with s have t: "trim s = s" by (intro trim_id) (simp_all add: digit_not_space)
  from s have a: "\<not> unitRegexTest s" "CHR ''%'' \<notin> set s" "\<not> parseFloatIsNaN s"
    using unitRegexTest_numeric [of s] percent_not_numeric [of s] parseFloat_digit [of d s']
    by simp_all
  show ?thesis
    unfolding getStyleValue_def Let_def t using k a s(4) by simp
qed

lemma validUnit_last:
  assumes "toLowerCase unit \<in> set validUnits"
  shows "unit \<noteq> []" and "\<not> isSpace (last unit)" and "\<not> isNumChar (last unit)"
proof -
  from assms show ne: "unit \<noteq> []" by (auto simp: validUnits_def toLowerCase_def)
  then have "last (toLowerCase unit) = lowerChar (last unit)"
    by (simp add: toLowerCase_def last_map)
  moreover from assms have "last (toLowerCase unit) \<in> set ''xwh%mntcs''"
    by (auto simp: validUnits_def)
  ultimately have l: "lowerChar (last unit) \<in> set ''xwh%mntcs''" by simp
  have "\<not> (isSpace (last unit) \<or> isNumChar (last unit))"
  proof
    assume a: "isSpace (last unit) \<or> isNumChar (last unit)"
    with lowerChar_fixed have "lowerChar (last unit) = last unit" by blast
    with l have "last unit \<in> set ''xwh%mntcs''" by simp
    with a show False by (auto simp: isSpace_def isNumChar_def isDigit_def)
  qed
  then show "\<not> isSpace (last unit)" and "\<not> isNumChar (last unit)" by simp_all
qed

lemma getStyleValue_suffix:
  assumes k: "key \<in> set sizingKeys" and d: "isDigit d"
    and u: "toLowerCase unit \<in> set validUnits"
  shows "getStyleValue key (d # mid @ unit) = d # mid @ unit"
proof -
  let ?s = "d # mid @ unit"
  from validUnit_last [OF u] have ne: "unit \<noteq> []" and ns: "\<not> isSpace (last unit)"
    and nn: "\<not> isNumChar (last unit)" by simp_all
  from ne have l: "last ?s = last unit" by simp
  from d l ns have t: "trim ?s = ?s" by (intro trim_id) (simp_all add: digit_not_space)
  from ne have "last unit \<in> set ?s" by simp
  with nn plainNumberTest_numeric [of ?s] have np: "\<not> plainNumberTest ?s" by blast
  show ?thesis
    unfolding getStyleValue_def Let_def t using k np by simp
qed

lemma propStep_sizing:
  assumes "key \<in> set sizingKeys"
  shows "propStep hasLazy a p st (key, value) =
     pushStyles st ((cssProperty key @ '': '' @ getStyleValue key (valueToString value))
                    # (if key = ''border-size'' then [''border-style: solid''] else []))"
proof -
  from assms have "key = ''width'' \<or> key = ''height'' \<or> key = ''size''
    \<or> key = ''border-size'' \<or> key = ''padding'' \<or> key = ''margin'' \<or> key = ''gap''
    \<or> key = ''radius''"
    by (simp only: sizingKeys_def list.set insert_iff empty_iff simp_thms)
  then show ?thesis
    by (elim disjE)
      (simp_all only: propStep_def Let_def prod.case cssProperty_def list.inject char.inject
        list.distinct simp_thms if_False if_True append.simps)
qed

text \<open>
  Claim C5. For each of the keys \<^verbatim>\<open>width\<close>, \<^verbatim>\<open>height\<close>, \<^verbatim>\<open>size\<close>, \<^verbatim>\<open>border-size\<close>,
  \<^verbatim>\<open>padding\<close>, \<^verbatim>\<open>margin\<close>, \<^verbatim>\<open>gap\<close> and \<^verbatim>\<open>radius\<close>, a number without a unit (digits,
  or digits, a dot and digits) gets \<^verbatim>\<open>px\<close> appended, and a number followed by one of the
  unit suffixes of the lexer, in either case, the percent sign among them, is left as it
  is. The property then adds the style declaration of its CSS property with that value
  and no attribute. An element with \<^verbatim>\<open>width: 100\<close> is emitted with the style
  \<^verbatim>\<open>width: 100px\<close>, one with \<^verbatim>\<open>width: 50%\<close> with \<^verbatim>\<open>width: 50%\<close>.
\<close>

theorem sizing_value_defaults_to_px:
  assumes "key \<in> set sizingKeys"
    and "ds \<noteq> []" and "\<forall>c\<in>set ds. isDigit c" and "\<forall>c\<in>set fs. isDigit c"
    and "toLowerCase unit \<in> set validUnits"
  shows "getStyleValue key ds = ds @ ''px''
       \<and> getStyleValue key (ds @ ''.'' @ fs) = ds @ ''.'' @ fs @ ''px''
       \<and> getStyleValue key (ds @ unit) = ds @ unit
       \<and> getStyleValue key (ds @ ''.'' @ fs @ unit) = ds @ ''.'' @ fs @ unit
       \<and> styles (propStep hasLazy a p st (key, value)) =
           styles st @ (cssProperty key @ '': '' @ getStyleValue key (valueToString value))
                       # (if key = ''border-size'' then [''border-style: solid''] else [])
       \<and> html (propStep hasLazy a p st (key, value)) = html st
       \<and> fst (generateElement [] ''20px'' 0 (Element ''box'' [(''width'', NumberE ''100'')] [] []))
           = ''<div id='' @ [dquote] @ ''el_0'' @ [dquote] @ '' style='' @ [dquote]
             @ ''width: 100px'' @ [dquote] @ ''></div>''
       \<and> fst (generateElement [] ''20px'' 0 (Element ''box'' [(''width'', NumberE ''50%'')] [] []))
           = ''<div id='' @ [dquote] @ ''el_0'' @ [dquote] @ '' style='' @ [dquote]
             @ ''width: 50%'' @ [dquote] @ ''></div>''"
proof -
  from assms obtain d ds' where ds: "ds = d # ds'" "isDigit d" by (cases ds) auto
  have nd: "isNumChar (CHR ''.'')" by (simp add: isNumChar_def)
  from assms have n1: "\<forall>c\<in>set ds. isNumChar c" by (simp add: isNumChar_def)
  from assms nd have n2: "\<forall>c\<in>set (ds @ ''.'' @ fs). isNumChar c" by (auto simp: isNumChar_def)
  note pn = plainNumberTest_digits [OF assms(2) assms(3) assms(4)]
  have a: "getStyleValue key ds = ds @ ''px''"
    using getStyleValue_numeral [OF assms(1) ds(1) ds(2) n1 pn(1)] .
  have "getStyleValue key (ds @ ''.'' @ fs) = (ds @ ''.'' @ fs) @ ''px''"
    using ds n2 pn(2) by (intro getStyleValue_numeral [OF assms(1), of _ d "ds' @ ''.'' @ fs"]) simp_all
  then have b: "getStyleValue key (ds @ ''.'' @ fs) = ds @ ''.'' @ fs @ ''px''" by simp
  have c: "getStyleValue key (ds @ unit) = ds @ unit"
    using getStyleValue_suffix [OF assms(1) ds(2) assms(5), of ds'] ds by simp
  have e: "getStyleValue key (ds @ ''.'' @ fs @ unit) = ds @ ''.'' @ fs @ unit"
    using getStyleValue_suffix [OF assms(1) ds(2) assms(5), of "ds' @ ''.'' @ fs"] ds by simp
  have f: "styles (propStep hasLazy a p st (key, value)) =
           styles st @ (cssProperty key @ '': '' @ getStyleValue key (valueToString value))
                       # (if key = ''border-size'' then [''border-style: solid''] else [])"
    and g: "html (propStep hasLazy a p st (key, value)) = html st"
    by (simp_all add: propStep_sizing [OF assms(1)] pushStyles_def)
  have h: "fst (generateElement [] ''20px'' 0 (Element ''box'' [(''width'', NumberE ''100'')] [] []))
           = ''<div id='' @ [dquote] @ ''el_0'' @ [dquote] @ '' style='' @ [dquote]
             @ ''width: 100px'' @ [dquote] @ ''></div>''"
    by code_simp
  have i: "fst (generateElement [] ''20px'' 0 (Element ''box'' [(''width'', NumberE ''50%'')] [] []))
           = ''<div id='' @ [dquote] @ ''el_0'' @ [dquote] @ '' style='' @ [dquote]
             @ ''width: 50%'' @ [dquote] @ ''></div>''"
    by code_simp
  from a b c e f g h i show ?thesis by blast
qed

theorem sizing_value_defaults_to_px_witness:
  "getStyleValue ''margin'' ''12'' = ''12px''
   \<and> getStyleValue ''margin'' ''1.5'' = ''1.5px''
   \<and> getStyleValue ''margin'' ''12EM'' = ''12EM''
   \<and> getStyleValue ''margin'' ''1.5vh'' = ''1.5vh''
   \<and> styles (propStep False alignInit (paddingsOf ''20px'')
         \<lparr>html = [], styles = [], elementVarName = None, dragData = False\<rparr>
         (''margin'', NumberE ''12'')) = [''margin: 12px'']"
proof -
  have k: "''margin'' \<in> set sizingKeys" by (simp add: sizingKeys_def)
  have d: "''12'' \<noteq> []" "\<forall>c\<in>set ''12''. isDigit c" "''1'' \<noteq> []" "\<forall>c\<in>set ''1''. isDigit c"
    "\<forall>c\<in>set ''5''. isDigit c" "\<forall>c\<in>set []. isDigit c"
    by (simp_all add: isDigit_def)
  have u: "toLowerCase ''EM'' \<in> set validUnits" "toLowerCase ''vh'' \<in> set validUnits"
    by code_simp+
  from sizing_value_defaults_to_px [OF k d(1) d(2) d(6) u(1), of False alignInit "paddingsOf ''20px''"
      "\<lparr>html = [], styles = [], elementVarName = None, dragData = False\<rparr>" "NumberE ''12''"]
  have a: "getStyleValue ''margin'' ''12'' = ''12px''" "getStyleValue ''margin'' ''12EM'' = ''12EM''"
    "styles (propStep False alignInit (paddingsOf ''20px'')
         \<lparr>html = [], styles = [], elementVarName = None, dragData = False\<rparr>
         (''margin'', NumberE ''12'')) = [''margin: 12px'']"
    by (simp_all add: cssProperty_def)
  from sizing_value_defaults_to_px [OF k d(3) d(4) d(5) u(2)]
  have b: "getStyleValue ''margin'' ''1.5'' = ''1.5px''" "getStyleValue ''margin'' ''1.5vh'' = ''1.5vh''"
    by simp_all
  from a b show ?thesis by simp
qed

lemma generatePages_loop_length:
  "length (fst (generatePages_loop pn first n nps)) = length nps"
proof (induction nps arbitrary: n)
  case Nil
  then show ?case by simp
next
  case (Cons np nps)
  obtain h n1 where g: "generatePage pn first n np = (h, n1)" by force
  obtain hs n2 where l: "generatePages_loop pn first n1 nps = (hs, n2)" by force
  from Cons.IH [of n1] l have "length hs = length nps" by simp
  with g l show ?case by simp
qed

lemma generatePage_shape:
  "\<exists>body. fst (generatePage pn first n np) =
      pageOpen (fst np) (pagePaddingOf (snd np)) (fst np = first) (pageBgOf (snd np))
      @ body @ ''</div>''"
  by (cases np) (auto simp: generatePage_def Let_def split: prod.splits)

lemma generatePages_loop_nth:
  "i < length nps \<Longrightarrow>
   \<exists>body. fst (generatePages_loop pn first n nps) ! i =
      pageOpen (fst (nps ! i)) (pagePaddingOf (snd (nps ! i))) (fst (nps ! i) = first)
        (pageBgOf (snd (nps ! i))) @ body @ ''</div>''"
proof (induction nps arbitrary: n i)
  case Nil
  then show ?case by simp
next
  case (Cons np nps)
  obtain h n1 where g: "generatePage pn first n np = (h, n1)" by force
  obtain hs n2 where l: "generatePages_loop pn first n1 nps = (hs, n2)" by force
  show ?case
  proof (cases i)
    case 0
    with g l generatePage_shape [of pn first n np] show ?thesis by simp
  next
    case (Suc j)
    with Cons.prems have "j < length nps" by simp
    from Cons.IH [OF this, of n1] g l Suc show ?thesis by simp
  qed
qed

text \<open>
  Claim C6. For a program with at least one page (the pages are the entries of an
  object, so their names are distinct), \<^verbatim>\<open>generatePages\<close> emits one container per page,
  in the order of the pages, each from its opening tag to its closing \<^verbatim>\<open>div\<close>. The class
  of the container is \<^verbatim>\<open>page active\<close> for the first page and \<^verbatim>\<open>page\<close> followed by a
  blank for every other page: exactly the first page carries the active marker.
\<close>

theorem first_page_is_the_active_page:
  assumes "pages (ast c) \<noteq> []" and "distinct (map fst (pages (ast c)))"
  shows "length (fst (pageChunks c)) = length (pages (ast c))
       \<and> fst (generatePages c) = concat (fst (pageChunks c))
       \<and> (\<forall>i < length (pages (ast c)). \<exists>body.
             fst (pageChunks c) ! i =
               ''<div data-page='' @ [dquote] @ fst (pages (ast c) ! i) @ [dquote]
               @ '' data-padding='' @ [dquote] @ pagePaddingOf (snd (pages (ast c) ! i)) @ [dquote]
               @ '' class='' @ [dquote] @ ''page '' @ (if i = 0 then ''active'' else '''') @ [dquote]
               @ '' style='' @ [dquote] @ ''padding: '' @ pagePaddingOf (snd (pages (ast c) ! i))
               @ ''; '' @ pageBgOf (snd (pages (ast c) ! i)) @ [dquote] @ ''>''
               @ body @ ''</div>'')"
proof -
  let ?nps = "pages (ast c)"
  let ?names = "map fst ?nps"
  from assms(1) obtain np nps where nps: "?nps = np # nps" by (cases ?nps) auto
  then have first: "(case ?names of [] \<Rightarrow> [] | f # _ \<Rightarrow> f) = fst (?nps ! 0)" by simp
  have pc: "pageChunks c = generatePages_loop ?names (fst (?nps ! 0)) (elementId c) ?nps"
    by (simp only: pageChunks_def Let_def first)
  have a: "length (fst (pageChunks c)) = length ?nps"
    by (simp add: pc generatePages_loop_length)
  have b: "fst (generatePages c) = concat (fst (pageChunks c))"
    by (simp add: generatePages_def split: prod.splits)
  have act: "(fst (?nps ! i) = fst (?nps ! 0)) = (i = 0)" if "i < length ?nps" for i
  proof -
    from assms(1) have z: "0 < length ?names" by simp
    from that have l: "i < length ?names" by simp
    from nth_eq_iff_index_eq [OF assms(2) l z] have "(?names ! i = ?names ! 0) = (i = 0)" .
    with that assms(1) show ?thesis by (simp add: nth_map)
  qed
  have cc: "\<exists>body. fst (pageChunks c) ! i =
               ''<div data-page='' @ [dquote] @ fst (?nps ! i) @ [dquote]
               @ '' data-padding='' @ [dquote] @ pagePaddingOf (snd (?nps ! i)) @ [dquote]
               @ '' class='' @ [dquote] @ ''page '' @ (if i = 0 then ''active'' else '''') @ [dquote]
               @ '' style='' @ [dquote] @ ''padding: '' @ pagePaddingOf (snd (?nps ! i))
               @ ''; '' @ pageBgOf (snd (?nps ! i)) @ [dquote] @ ''>''
               @ body @ ''</div>''" if "i < length ?nps" for i
  proof -
    from generatePages_loop_nth [OF that, of ?names "fst (?nps ! 0)" "elementId c"]
    obtain body where "fst (pageChunks c) ! i =
      pageOpen (fst (?nps ! i)) (pagePaddingOf (snd (?nps ! i))) (fst (?nps ! i) = fst (?nps ! 0))
        (pageBgOf (snd (?nps ! i))) @ body @ ''</div>''"
      unfolding pc by blast
    then have "fst (pageChunks c) ! i =
      pageOpen (fst (?nps ! i)) (pagePaddingOf (snd (?nps ! i))) (i = 0)
        (pageBgOf (snd (?nps ! i))) @ body @ ''</div>''"
      by (simp only: act [OF that])
    then show ?thesis by (simp add: pageOpen_def)
  qed
  from a b cc show ?thesis by blast
qed

theorem first_page_is_the_active_page_witness:
  "length (fst (pageChunks (PSLCompiler
     \<lparr>metadata = [],
      pages = [(''home'', \<lparr>elements = [PageElement (Element ''title'' [(''text'', StringE ''Hi'')] [] [])],
                           padding = None, bg = None\<rparr>),
               (''about'', \<lparr>elements = [], padding = None, bg = None\<rparr>)],
      functionDecls = [], globalVariables = [], statements = [], keyHandlers = [],
      components = [], mediaQueries = [], watchers = [], intervals = [], importList = []\<rparr>))) = 2
   \<and> (\<exists>body. fst (pageChunks (PSLCompiler
     \<lparr>metadata = [],
      pages = [(''home'', \<lparr>elements = [PageElement (Element ''title'' [(''text'', StringE ''Hi'')] [] [])],
                           padding = None, bg = None\<rparr>),
               (''about'', \<lparr>elements = [], padding = None, bg = None\<rparr>)],
      functionDecls = [], globalVariables = [], statements = [], keyHandlers = [],
      components = [], mediaQueries = [], watchers = [], intervals = [], importList = []\<rparr>)) ! 0
       = ''<div data-page='' @ [dquote] @ ''home'' @ [dquote] @ '' data-padding='' @ [dquote]
         @ ''20px'' @ [dquote] @ '' class='' @ [dquote] @ ''page active'' @ [dquote]
         @ '' style='' @ [dquote] @ ''padding: 20px; '' @ [dquote] @ ''>'' @ body @ ''</div>'')
   \<and> (\<exists>body. fst (pageChunks (PSLCompiler
     \<lparr>metadata = [],
      pages = [(''home'', \<lparr>elements = [PageElement (Element ''title'' [(''text'', StringE ''Hi'')] [] [])],
                           padding = None, bg = None\<rparr>),
               (''about'', \<lparr>elements = [], padding = None, bg = None\<rparr>)],
      functionDecls = [], globalVariables = [], statements = [], keyHandlers = [],
      components = [], mediaQueries = [], watchers = [], intervals = [], importList = []\<rparr>)) ! 1
       = ''<div data-page='' @ [dquote] @ ''about'' @ [dquote] @ '' data-padding='' @ [dquote]
         @ ''20px'' @ [dquote] @ '' class='' @ [dquote] @ ''page '' @ [dquote]
         @ '' style='' @ [dquote] @ ''padding: 20px; '' @ [dquote] @ ''>'' @ body @ ''</div>'')"
proof -
  let ?c = "PSLCompiler
     \<lparr>metadata = [],
      pages = [(''home'', \<lparr>elements = [PageElement (Element ''title'' [(''text'', StringE ''Hi'')] [] [])],
                           padding = None, bg = None\<rparr>),
               (''about'', \<lparr>elements = [], padding = None, bg = None\<rparr>)],
      functionDecls = [], globalVariables = [], statements = [], keyHandlers = [],
      components = [], mediaQueries = [], watchers = [], intervals = [], importList = []\<rparr>"
  have ne: "pages (ast ?c) \<noteq> []" by (simp add: PSLCompiler_def)
  have di: "distinct (map fst (pages (ast ?c)))" by (simp add: PSLCompiler_def)
  note t = first_page_is_the_active_page [OF ne di]
  from t have a: "length (fst (pageChunks ?c)) = 2" by (simp add: PSLCompiler_def)
  from t have q: "\<exists>body. fst (pageChunks ?c) ! i =
               ''<div data-page='' @ [dquote] @ fst (pages (ast ?c) ! i) @ [dquote]
               @ '' data-padding='' @ [dquote] @ pagePaddingOf (snd (pages (ast ?c) ! i)) @ [dquote]
               @ '' class='' @ [dquote] @ ''page '' @ (if i = 0 then ''active'' else []) @ [dquote]
               @ '' style='' @ [dquote] @ ''padding: '' @ pagePaddingOf (snd (pages (ast ?c) ! i))
               @ ''; '' @ pageBgOf (snd (pages (ast ?c) ! i)) @ [dquote] @ ''>''
               @ body @ ''</div>''" if "i < 2" for i
    using that by (simp add: PSLCompiler_def)
  have z: "(0::nat) < 2" "(1::nat) < 2" by simp_all
  from q [OF z(1)] have b': "\<exists>body. fst (pageChunks ?c) ! 0
       = ''<div data-page='' @ [dquote] @ ''home'' @ [dquote] @ '' data-padding='' @ [dquote]
         @ ''20px'' @ [dquote] @ '' class='' @ [dquote] @ ''page active'' @ [dquote]
         @ '' style='' @ [dquote] @ ''padding: 20px; '' @ [dquote] @ ''>'' @ body @ ''</div>''"
    by (simp add: PSLCompiler_def pagePaddingOf_def pageBgOf_def)
  from q [OF z(2)] have c': "\<exists>body. fst (pageChunks ?c) ! 1
       = ''<div data-page='' @ [dquote] @ ''about'' @ [dquote] @ '' data-padding='' @ [dquote]
         @ ''20px'' @ [dquote] @ '' class='' @ [dquote] @ ''page '' @ [dquote]
         @ '' style='' @ [dquote] @ ''padding: 20px; '' @ [dquote] @ ''>'' @ body @ ''</div>''"
    by (simp add: PSLCompiler_def pagePaddingOf_def pageBgOf_def)
  from a b' c' show ?thesis by blast
qed

















end
